theory Spec2Isabelle
  imports Complex_Main "HOL-Library.Sublist"
begin

section \<open>Data model of the search orchestrator\<close>

text \<open>
  The orchestrator's configuration after the constructor has merged the defaults
  (maxSearchResults 10, maxGeneratedQueries 5, maxSearchIterations 2,
  completenessThreshold 80, maxFollowupQueries 3). Only the fields read by the
  methods embedded here are kept. The counts are natural numbers, so that
  \<^verbatim>\<open>xs.slice(0, n)\<close> is \<open>take n xs\<close>.
\<close>

record SearchOrchestrationConfig =
  maxSearchResults :: nat
  maxGeneratedQueries :: nat
  enableIterativeSearch :: bool
  maxSearchIterations :: nat
  completenessThreshold :: real
  maxFollowupQueries :: nat

text \<open>
  One search hit (interface SearchResult of the search client). Its identity in
  the aggregation is the field \<open>link\<close>. The page map is opaque: \<open>'m\<close>.
\<close>

record 'm SearchResult =
  title :: string
  link :: string
  snippet :: string
  displayLink :: string
  formattedUrl :: string
  htmlTitle :: string
  htmlSnippet :: string
  cacheId :: "string option"
  metadata :: "'m option"

record SearchInformation =
  searchTime :: real
  totalResultsText :: string
  formattedTotalResults :: string

text \<open>
  One batch (interface SearchResponse). \<open>searchInformation\<close> is optional here
  because the object that aggregateResults builds from an empty array has no such
  property (there is no first response to spread).
\<close>

record 'm SearchResponse =
  items :: "'m SearchResult list"
  searchInformation :: "SearchInformation option"
  totalResults :: nat
  hasNextPage :: bool
  nextPageStartIndex :: "nat option"

section \<open>aggregateResults\<close>

text \<open>
  The for-loop over allItems with its two mutable locals: the set seenUrls and
  the array uniqueItems (push appends at the end).
\<close>

fun dedupLoop :: "'m SearchResult list \<Rightarrow> string set \<Rightarrow> 'm SearchResult list
    \<Rightarrow> 'm SearchResult list" where
  "dedupLoop [] seenUrls uniqueItems = uniqueItems"
| "dedupLoop (item # rest) seenUrls uniqueItems =
     (if link item \<notin> seenUrls
      then dedupLoop rest (insert (link item) seenUrls) (uniqueItems @ [item])
      else dedupLoop rest seenUrls uniqueItems)"

text \<open>\<^verbatim>\<open>searchResponses[0]\<close>: undefined on the empty array.\<close>

definition firstResponse :: "'m SearchResponse list \<Rightarrow> 'm SearchResponse option" where
  "firstResponse searchResponses =
     (case searchResponses of [] \<Rightarrow> None | r # _ \<Rightarrow> Some r)"

text \<open>
  The returned object literal spreads the base response (spreading undefined
  adds no property and does not throw) and then overrides items, totalResults,
  hasNextPage and nextPageStartIndex.
\<close>

definition aggregateResults :: "SearchOrchestrationConfig \<Rightarrow> 'm SearchResponse list
    \<Rightarrow> 'm SearchResponse" where
  "aggregateResults config searchResponses =
     (let allItems = concat (map items searchResponses);
          uniqueItems = dedupLoop allItems {} [];
          limitedItems = take (maxSearchResults config) uniqueItems;
          baseResponse = firstResponse searchResponses
      in \<lparr> items = limitedItems,
           searchInformation = (case baseResponse of None \<Rightarrow> None
                                | Some b \<Rightarrow> searchInformation b),
           totalResults = length limitedItems,
           hasNextPage = False,
           nextPageStartIndex = None \<rparr>)"

text \<open>
  The specification's wording, for comparison with the loop: walk the flattened
  sequence, keep an item, and drop every later item with the same URL.
\<close>

fun keepFirstByUrl :: "'m SearchResult list \<Rightarrow> 'm SearchResult list" where
  "keepFirstByUrl [] = []"
| "keepFirstByUrl (x # xs) = x # keepFirstByUrl (filter (\<lambda>y. link y \<noteq> link x) xs)"

text \<open>A hit that carries only a URL, as in the specification's scenario.\<close>

definition urlItem :: "string \<Rightarrow> 'm SearchResult" where
  "urlItem u = \<lparr> title = [], link = u, snippet = [], displayLink = [],
                 formattedUrl = [], htmlTitle = [], htmlSnippet = [],
                 cacheId = None, metadata = None \<rparr>"

definition batchOf :: "'m SearchResult list \<Rightarrow> 'm SearchResponse" where
  "batchOf xs = \<lparr> items = xs, searchInformation = None, totalResults = length xs,
                  hasNextPage = False, nextPageStartIndex = None \<rparr>"

text \<open>The constructor's defaults, with the iterative search switched on.\<close>

definition exampleConfig :: SearchOrchestrationConfig where
  "exampleConfig = \<lparr> maxSearchResults = 10, maxGeneratedQueries = 5,
      enableIterativeSearch = True, maxSearchIterations = 2,
      completenessThreshold = 80, maxFollowupQueries = 3 \<rparr>"

section \<open>Strings\<close>

text \<open>
  Strings are sequences of 8-bit characters: the model covers the texts whose
  UTF-16 code units all lie in U+0000..U+00FF, where one \<open>char\<close> is one code
  unit and \<open>length\<close> is the source's \<^verbatim>\<open>.length\<close>.
\<close>

definition isWhiteSpace :: "char \<Rightarrow> bool" where
  \<comment> \<open>what \<^verbatim>\<open>\s\<close> and \<^verbatim>\<open>trim()\<close> treat as white space: TAB, LF, VT, FF, CR, SP, NBSP\<close>
  "isWhiteSpace c = (of_char c \<in> {9, 10, 11, 12, 13, 32, 160 :: nat})"

definition isLineTerminator :: "char \<Rightarrow> bool" where
  \<comment> \<open>what \<^verbatim>\<open>.\<close> does not match: LF and CR\<close>
  "isLineTerminator c = (of_char c \<in> {10, 13 :: nat})"

definition isDigit :: "char \<Rightarrow> bool" where
  \<comment> \<open>\<^verbatim>\<open>\d\<close>\<close>
  "isDigit c = (48 \<le> (of_char c :: nat) \<and> (of_char c :: nat) \<le> 57)"

definition isQuote :: "char \<Rightarrow> bool" where
  \<comment> \<open>\<^verbatim>\<open>["']\<close>\<close>
  "isQuote c = (of_char c \<in> {34, 39 :: nat})"

definition trim :: "string \<Rightarrow> string" where
  "trim s = rev (dropWhile isWhiteSpace (rev (dropWhile isWhiteSpace s)))"

definition toLowerChar :: "char \<Rightarrow> char" where
  \<comment> \<open>A-Z and the Latin-1 capitals U+00C0..U+00DE (not the sign U+00D7) move up by 32;
      bit 5 is clear in both ranges, so adding 32 sets it\<close>
  "toLowerChar c =
     (let n = of_char c :: nat
      in if (65 \<le> n \<and> n \<le> 90) \<or> (192 \<le> n \<and> n \<le> 222 \<and> n \<noteq> 215)
         then (case c of Char b0 b1 b2 b3 b4 b5 b6 b7 \<Rightarrow> Char b0 b1 b2 b3 b4 True b6 b7)
         else c)"

definition toLowerCase :: "string \<Rightarrow> string" where
  "toLowerCase s = map toLowerChar s"

text \<open>\<^verbatim>\<open>s.includes(k)\<close>: k occurs in s as a contiguous block.\<close>

fun includesStr :: "string \<Rightarrow> string \<Rightarrow> bool" where
  "includesStr [] k = (k = [])"
| "includesStr (c # cs) k = (prefix k (c # cs) \<or> includesStr cs k)"

text \<open>
  \<^verbatim>\<open>s.split(sep)\<close> for a one-character separator: one piece more than there are
  separators, empty pieces included.
\<close>

fun splitOn :: "char \<Rightarrow> string \<Rightarrow> string list" where
  "splitOn sep [] = [[]]"
| "splitOn sep (c # cs) =
     (if c = sep then [] # splitOn sep cs
      else (case splitOn sep cs of [] \<Rightarrow> [[c]] | piece # pieces \<Rightarrow> (c # piece) # pieces))"

definition newline :: char where
  "newline = CHR 0x0A"

text \<open>\<^verbatim>\<open>text.split('\n').filter(line => line.trim())\<close>\<close>

definition nonBlankLines :: "string \<Rightarrow> string list" where
  "nonBlankLines generatedText =
     filter (\<lambda>line. trim line \<noteq> []) (splitOn newline generatedText)"

section \<open>parseGeneratedQueries\<close>

text \<open>
  \<^verbatim>\<open>line.match(/^\d+\.\s*(.+)$/)\<close>, returning capture group 1. The digits are the
  longest run at the start and a dot must follow. The greedy \<^verbatim>\<open>\s*\<close> takes the
  white space after the dot; the group is the rest of the line, which must be
  non-empty and free of line terminators. When only white space follows the
  dot, backtracking hands the last character of it to the group.
\<close>

definition matchNumbered :: "string \<Rightarrow> string option" where
  "matchNumbered line =
     (let digits = takeWhile isDigit line; afterDigits = dropWhile isDigit line
      in if digits = [] then None
         else (case afterDigits of
                 [] \<Rightarrow> None
               | c # afterDot \<Rightarrow>
                   if c \<noteq> CHR ''.'' then None
                   else (let body = dropWhile isWhiteSpace afterDot
                         in if body \<noteq> []
                            then (if list_ex isLineTerminator body then None else Some body)
                            else if afterDot \<noteq> [] \<and> \<not> isLineTerminator (last afterDot)
                            then Some [last afterDot]
                            else None)))"

text \<open>\<^verbatim>\<open>query.replace(/^["']|["']$/g, '')\<close>: one quote off the front, then one off the end.\<close>

definition stripQuotes :: "string \<Rightarrow> string" where
  "stripQuotes s =
     (let s1 = (case s of [] \<Rightarrow> [] | c # cs \<Rightarrow> if isQuote c then cs else s)
      in if s1 \<noteq> [] \<and> isQuote (last s1) then butlast s1 else s1)"

text \<open>The first for-loop: the queries pushed, in line order.\<close>

fun numberedQueries :: "string list \<Rightarrow> string \<Rightarrow> string list" where
  "numberedQueries [] originalQuery = []"
| "numberedQueries (line # rest) originalQuery =
     (case matchNumbered line of
        None \<Rightarrow> numberedQueries rest originalQuery
      | Some m \<Rightarrow>
          (let query = stripQuotes (trim m)
           in if query \<noteq> [] \<and> query \<noteq> originalQuery
              then query # numberedQueries rest originalQuery
              else numberedQueries rest originalQuery))"

text \<open>The predicate of the fallback filter.\<close>

definition meaningfulLine :: "string \<Rightarrow> string \<Rightarrow> bool" where
  "meaningfulLine originalQuery line =
     (length line > 5
      \<and> \<not> includesStr (toLowerCase line) ''here are''
      \<and> \<not> includesStr (toLowerCase line) ''search queries''
      \<and> \<not> includesStr (toLowerCase line) ''cannot generate''
      \<and> line \<noteq> originalQuery)"

definition parseGeneratedQueries :: "SearchOrchestrationConfig \<Rightarrow> string \<Rightarrow> string
    \<Rightarrow> string list" where
  "parseGeneratedQueries config generatedText originalQuery =
     (let lines = nonBlankLines generatedText;
          queries1 = numberedQueries lines originalQuery;
          queries2 = (if queries1 = []
                      then take (maxGeneratedQueries config)
                             (filter (meaningfulLine originalQuery) lines)
                      else queries1);
          queries3 = (if queries2 = [] then [originalQuery] else queries2)
      in take (maxGeneratedQueries config) queries3)"

section \<open>Search context and result analysis\<close>

datatype SearchFocusMode = General | Academic | Creative | News | Technical | Medical | Legal

record SearchContext =
  query :: string
  focusMode :: SearchFocusMode
  language :: "string option"
  region :: "string option"
  timeFilter :: "string option"

text \<open>
  A JavaScript number: NaN, the two infinities, or a finite value (the exact
  value of the double, as a real).
\<close>

datatype jsnum = NaN | NegInf | Fin real | PosInf

text \<open>
  The ResultAnalysis interface. The entries of its sequences are declared as
  strings; the type parameter \<open>'g\<close> is \<open>string\<close> for an analysis that has its
  declared type and the type of parsed JSON values for what parseAnalysisResponse
  builds, which stores the arrays of the model's reply unchecked.
\<close>

record 'g GapCategories =
  factual :: "'g list"
  contextual :: "'g list"
  verification :: "'g list"
  depth :: "'g list"

record 'g ResultAnalysis =
  completeness :: jsnum
  informationGaps :: "'g list"
  gapCategories :: "'g GapCategories"
  followupTopics :: "'g list"
  confidenceLevel :: jsnum
  needsMoreSearch :: bool
  reasoning :: string

section \<open>calculateQueryPriority\<close>

definition factualKeywords :: "string list" where
  "factualKeywords =
     [''data'', ''statistics'', ''numbers'', ''facts'', ''research'', ''study'', ''evidence'']"

definition verificationKeywords :: "string list" where
  "verificationKeywords =
     [''official'', ''verified'', ''confirmed'', ''authoritative'', ''source'', ''validation'']"

definition depthKeywords :: "string list" where
  "depthKeywords =
     [''detailed'', ''comprehensive'', ''complete'', ''thorough'', ''in-depth'', ''advanced'']"

definition contextualKeywords :: "string list" where
  "contextualKeywords =
     [''background'', ''context'', ''history'', ''explanation'', ''overview'', ''introduction'']"

text \<open>\<^verbatim>\<open>keywords.some(keyword => queryLower.includes(keyword))\<close>\<close>

definition containsKeyword :: "string \<Rightarrow> string list \<Rightarrow> bool" where
  "containsKeyword queryLower keywords =
     list_ex (\<lambda>keyword. includesStr queryLower keyword) keywords"

text \<open>
  \<^verbatim>\<open>entries.filter(e => queryLower.includes(e.toLowerCase()) ||
  e.toLowerCase().includes(queryLower)).length\<close>
\<close>

definition countMatches :: "string \<Rightarrow> string list \<Rightarrow> nat" where
  "countMatches queryLower entries =
     length (filter (\<lambda>entry. includesStr queryLower (toLowerCase entry)
                             \<or> includesStr (toLowerCase entry) queryLower) entries)"

text \<open>
  The two mutable locals \<^verbatim>\<open>priority\<close> and \<^verbatim>\<open>gapTypesAddressed\<close> are threaded
  through the four category checks as a pair, in the source's order (factual,
  verification, depth, contextual); the later steps change the priority only.
\<close>

definition calculateQueryPriority :: "string \<Rightarrow> string ResultAnalysis \<Rightarrow> int" where
  "calculateQueryPriority queryText analysis =
     (let queryLower = toLowerCase queryText;
          categories = gapCategories analysis;
          (priority1, gapTypes1) =
            (if factual categories \<noteq> [] \<and> containsKeyword queryLower factualKeywords
             then (40, 1) else (0 :: int, 0 :: nat));
          (priority2, gapTypes2) =
            (if verification categories \<noteq> []
                \<and> containsKeyword queryLower verificationKeywords
             then (priority1 + 35, gapTypes1 + 1) else (priority1, gapTypes1));
          (priority3, gapTypes3) =
            (if depth categories \<noteq> [] \<and> containsKeyword queryLower depthKeywords
             then (priority2 + 30, gapTypes2 + 1) else (priority2, gapTypes2));
          (priority4, gapTypesAddressed) =
            (if contextual categories \<noteq> []
                \<and> containsKeyword queryLower contextualKeywords
             then (priority3 + 25, gapTypes3 + 1) else (priority3, gapTypes3));
          topicMatches = countMatches queryLower (followupTopics analysis);
          priority5 = priority4 + int topicMatches * 15;
          gapMatches = countMatches queryLower (informationGaps analysis);
          priority6 = priority5 + int gapMatches * 10;
          priority7 = (if gapTypesAddressed > 1 then priority6 + 20 else priority6);
          priority8 = (if length queryText \<ge> 20 \<and> length queryText \<le> 80
                       then priority7 + 5 else priority7);
          wordCount = length (splitOn CHR '' '' queryLower);
          priority9 = (if wordCount \<ge> 3 \<and> wordCount \<le> 8
                       then priority8 + 5 else priority8)
      in max 0 priority9)"

section \<open>parseAndPrioritizeFollowupQueries\<close>

text \<open>
  A scored candidate \<^verbatim>\<open>{ query, priority }\<close> is a pair. The numbered-list loop
  scores the extracted query.
\<close>

fun numberedCandidates :: "string list \<Rightarrow> string \<Rightarrow> string ResultAnalysis
    \<Rightarrow> (string \<times> int) list" where
  "numberedCandidates [] originalQuery analysis = []"
| "numberedCandidates (line # rest) originalQuery analysis =
     (case matchNumbered line of
        None \<Rightarrow> numberedCandidates rest originalQuery analysis
      | Some m \<Rightarrow>
          (let candidate = stripQuotes (trim m)
           in if candidate \<noteq> [] \<and> candidate \<noteq> originalQuery
              then (candidate, calculateQueryPriority candidate analysis)
                     # numberedCandidates rest originalQuery analysis
              else numberedCandidates rest originalQuery analysis))"

definition followupMeaningfulLine :: "string \<Rightarrow> string \<Rightarrow> bool" where
  "followupMeaningfulLine originalQuery line =
     (length line > 10
      \<and> \<not> includesStr (toLowerCase line) ''follow-up''
      \<and> \<not> includesStr (toLowerCase line) ''search queries''
      \<and> \<not> includesStr (toLowerCase line) ''generated''
      \<and> line \<noteq> originalQuery)"

text \<open>
  The candidates before sorting. In the fallback the score is computed on the
  line as it is and the stored query is the trimmed line.
\<close>

definition followupCandidates :: "SearchOrchestrationConfig \<Rightarrow> string \<Rightarrow> SearchContext
    \<Rightarrow> string ResultAnalysis \<Rightarrow> (string \<times> int) list" where
  "followupCandidates config generatedText context analysis =
     (let lines = nonBlankLines generatedText;
          queries1 = numberedCandidates lines (query context) analysis
      in if queries1 = []
         then map (\<lambda>line. (trim line, calculateQueryPriority line analysis))
                (take (maxFollowupQueries config)
                   (filter (followupMeaningfulLine (query context)) lines))
         else queries1)"

text \<open>
  \<^verbatim>\<open>queries.sort((a, b) => b.priority - a.priority)\<close>: a stable sort by descending
  priority, here the stable insertion sort on the negated priority.
\<close>

definition sortByPriority :: "(string \<times> int) list \<Rightarrow> (string \<times> int) list" where
  "sortByPriority queries = sort_key (\<lambda>item. - snd item) queries"

definition parseAndPrioritizeFollowupQueries :: "SearchOrchestrationConfig \<Rightarrow> string
    \<Rightarrow> SearchContext \<Rightarrow> string ResultAnalysis \<Rightarrow> string list" where
  "parseAndPrioritizeFollowupQueries config generatedText context analysis =
     map fst (take (maxFollowupQueries config)
       (sortByPriority (followupCandidates config generatedText context analysis)))"


section \<open>JavaScript values of a parsed reply\<close>

text \<open>
  What JSON.parse returns. An object is the list of its own properties; a
  property is read with \<open>map_of\<close>, so the first binding of a key is the
  property's value.
\<close>

datatype json =
    JNull
  | JBool bool
  | JNum jsnum
  | JStr string
  | JArr "json list"
  | JObj "(string \<times> json) list"

text \<open>
  The built-ins whose results are taken as given: JSON.parse (\<open>None\<close> when it
  throws a SyntaxError), the conversion of a string to a number and the
  printing of a number.
\<close>

record jsRuntime =
  jsonParse :: "string \<Rightarrow> json option"
  stringToNumber :: "string \<Rightarrow> jsnum"
  numberToString :: "jsnum \<Rightarrow> string"

text \<open>
  \<^verbatim>\<open>v.key\<close> on a value that is neither null nor undefined: a property of an
  object, undefined (\<open>None\<close>) on arrays and primitives, which have no property
  of the names read here.
\<close>

fun getMember :: "json \<Rightarrow> string \<Rightarrow> json option" where
  "getMember (JObj properties) key = map_of properties key"
| "getMember _ key = None"

text \<open>\<^verbatim>\<open>v?.key\<close>: undefined when \<open>v\<close> is undefined or null.\<close>

fun optionalMember :: "json option \<Rightarrow> string \<Rightarrow> json option" where
  "optionalMember None key = None"
| "optionalMember (Some JNull) key = None"
| "optionalMember (Some v) key = getMember v key"

text \<open>Truthiness; \<open>None\<close> is undefined.\<close>

fun truthy :: "json option \<Rightarrow> bool" where
  "truthy None = False"
| "truthy (Some JNull) = False"
| "truthy (Some (JBool b)) = b"
| "truthy (Some (JNum n)) = (n \<noteq> NaN \<and> n \<noteq> Fin 0)"
| "truthy (Some (JStr s)) = (s \<noteq> [])"
| "truthy (Some (JArr _)) = True"
| "truthy (Some (JObj _)) = True"

text \<open>\<^verbatim>\<open>v || d\<close>\<close>

definition orElse :: "json option \<Rightarrow> json \<Rightarrow> json" where
  "orElse v d = (case v of Some x \<Rightarrow> if truthy v then x else d | None \<Rightarrow> d)"

fun joinWith :: "string \<Rightarrow> string list \<Rightarrow> string" where
  "joinWith sep [] = []"
| "joinWith sep [s] = s"
| "joinWith sep (s # rest) = s @ sep @ joinWith sep rest"

text \<open>
  ToString, \<open>None\<close> when it throws a TypeError. An array prints its elements
  joined by commas, null as the empty string. A plain object prints as
  "[object Object]" through the inherited toString; an own property named
  toString (never callable in parsed JSON) hides it, and the conversion throws.
\<close>

fun jsToString :: "jsRuntime \<Rightarrow> json \<Rightarrow> string option" where
  "jsToString js JNull = Some ''null''"
| "jsToString js (JBool b) = Some (if b then ''true'' else ''false'')"
| "jsToString js (JNum n) = Some (numberToString js n)"
| "jsToString js (JStr s) = Some s"
| "jsToString js (JArr elements) =
     map_option (joinWith '','')
       (those (map (\<lambda>e. case e of JNull \<Rightarrow> Some [] | _ \<Rightarrow> jsToString js e) elements))"
| "jsToString js (JObj properties) =
     (if map_of properties ''toString'' \<noteq> None then None else Some ''[object Object]'')"

text \<open>
  ToNumber, \<open>None\<close> when it throws. Arrays and objects are first converted to a
  string as above; "[object Object]" is not a number.
\<close>

fun jsToNumber :: "jsRuntime \<Rightarrow> json \<Rightarrow> jsnum option" where
  "jsToNumber js JNull = Some (Fin 0)"
| "jsToNumber js (JBool b) = Some (if b then Fin 1 else Fin 0)"
| "jsToNumber js (JNum n) = Some n"
| "jsToNumber js (JStr s) = Some (stringToNumber js s)"
| "jsToNumber js (JArr elements) =
     map_option (stringToNumber js) (jsToString js (JArr elements))"
| "jsToNumber js (JObj properties) =
     (if map_of properties ''toString'' \<noteq> None then None else Some NaN)"

text \<open>Math.min and Math.max on two numbers: NaN if either is NaN.\<close>

fun jsLessEq :: "jsnum \<Rightarrow> jsnum \<Rightarrow> bool" where
  "jsLessEq NaN _ = False"
| "jsLessEq _ NaN = False"
| "jsLessEq NegInf _ = True"
| "jsLessEq _ PosInf = True"
| "jsLessEq (Fin a) (Fin b) = (a \<le> b)"
| "jsLessEq (Fin a) NegInf = False"
| "jsLessEq PosInf (Fin b) = False"
| "jsLessEq PosInf NegInf = False"

definition mathMin :: "jsnum \<Rightarrow> jsnum \<Rightarrow> jsnum" where
  "mathMin a b = (if a = NaN \<or> b = NaN then NaN else if jsLessEq a b then a else b)"

definition mathMax :: "jsnum \<Rightarrow> jsnum \<Rightarrow> jsnum" where
  "mathMax a b = (if a = NaN \<or> b = NaN then NaN else if jsLessEq a b then b else a)"

text \<open>A number within [0, 100].\<close>

fun withinPercent :: "jsnum \<Rightarrow> bool" where
  "withinPercent (Fin r) = (0 \<le> r \<and> r \<le> 100)"
| "withinPercent _ = False"

section \<open>parseAnalysisResponse\<close>

text \<open>
  \<^verbatim>\<open>generatedText.match(/\{[\s\S]*\}/)\<close>: from the first opening brace to the
  last closing brace after it; no match without such a pair.
\<close>

definition extractJsonBlock :: "string \<Rightarrow> string option" where
  "extractJsonBlock generatedText =
     (let fromBrace = dropWhile (\<lambda>c. c \<noteq> CHR ''{'') generatedText;
          block = rev (dropWhile (\<lambda>c. c \<noteq> CHR ''}'') (rev fromBrace))
      in if block = [] then None else Some block)"

text \<open>\<^verbatim>\<open>Math.max(0, Math.min(100, v || 0))\<close>\<close>

definition clampPercent :: "jsRuntime \<Rightarrow> json option \<Rightarrow> jsnum option" where
  "clampPercent js v =
     map_option (\<lambda>n. mathMax (Fin 0) (mathMin (Fin 100) n))
       (jsToNumber js (orElse v (JNum (Fin 0))))"

text \<open>\<^verbatim>\<open>Array.isArray(v) ? v : []\<close>\<close>

fun arrayOrEmpty :: "json option \<Rightarrow> json list" where
  "arrayOrEmpty (Some (JArr elements)) = elements"
| "arrayOrEmpty _ = []"

text \<open>
  The object literal built from the parsed data. \<open>None\<close> when building it
  throws: reading a property of null, or a conversion that throws.
\<close>

definition sanitizeAnalysis :: "jsRuntime \<Rightarrow> json \<Rightarrow> json ResultAnalysis option" where
  "sanitizeAnalysis js analysisData =
     (if analysisData = JNull then None
      else (case clampPercent js (getMember analysisData ''completeness'') of
              None \<Rightarrow> None
            | Some completenessValue \<Rightarrow>
          (case clampPercent js (getMember analysisData ''confidenceLevel'') of
              None \<Rightarrow> None
            | Some confidenceValue \<Rightarrow>
          (case jsToString js (orElse (getMember analysisData ''reasoning'')
                                 (JStr ''Analysis completed'')) of
              None \<Rightarrow> None
            | Some reasoningText \<Rightarrow>
              (let categories = getMember analysisData ''gapCategories''
               in Some \<lparr> completeness = completenessValue,
                    informationGaps = arrayOrEmpty (getMember analysisData ''informationGaps''),
                    gapCategories =
                      \<lparr> factual = arrayOrEmpty (optionalMember categories ''factual''),
                        contextual = arrayOrEmpty (optionalMember categories ''contextual''),
                        verification = arrayOrEmpty (optionalMember categories ''verification''),
                        depth = arrayOrEmpty (optionalMember categories ''depth'') \<rparr>,
                    followupTopics = arrayOrEmpty (getMember analysisData ''followupTopics''),
                    confidenceLevel = confidenceValue,
                    needsMoreSearch = truthy (getMember analysisData ''needsMoreSearch''),
                    reasoning = reasoningText \<rparr>)))))"

text \<open>The analysis returned from the catch block.\<close>

definition fallbackAnalysis :: "SearchContext \<Rightarrow> json ResultAnalysis" where
  "fallbackAnalysis context =
     \<lparr> completeness = Fin 50,
       informationGaps = [JStr ''Unable to properly analyze search results''],
       gapCategories =
         \<lparr> factual = [JStr ''Analysis parsing failed - may need more factual information''],
           contextual = [JStr ''Unable to assess contextual completeness''],
           verification = [],
           depth = [JStr ''Cannot determine information depth''] \<rparr>,
       followupTopics = [JStr (query context @ '' additional information'')],
       confidenceLevel = Fin 30,
       needsMoreSearch = True,
       reasoning =
         ''Analysis parsing failed, recommending additional search as precaution'' \<rparr>"

definition parseAnalysisResponse :: "jsRuntime \<Rightarrow> string \<Rightarrow> SearchContext
    \<Rightarrow> json ResultAnalysis" where
  "parseAnalysisResponse js generatedText context =
     (case extractJsonBlock generatedText of
        None \<Rightarrow> fallbackAnalysis context
      | Some block \<Rightarrow>
          (case jsonParse js block of
             None \<Rightarrow> fallbackAnalysis context
           | Some analysisData \<Rightarrow>
               (case sanitizeAnalysis js analysisData of
                  None \<Rightarrow> fallbackAnalysis context
                | Some analysis \<Rightarrow> analysis)))"

section \<open>The external services and the world\<close>

record ApiError =
  message :: string
  code :: string

text \<open>The tagged result \<^verbatim>\<open>ApiResponse<T>\<close>; the field \<^verbatim>\<open>details\<close> of an error is left out.\<close>

record 'a ApiResponse =
  data :: "'a option"
  error :: "ApiError option"
  success :: bool

definition okResponse :: "'a \<Rightarrow> 'a ApiResponse" where
  "okResponse d = \<lparr> data = Some d, error = None, success = True \<rparr>"

definition errorResponse :: "string \<Rightarrow> string \<Rightarrow> 'a ApiResponse" where
  "errorResponse msg errorCode =
     \<lparr> data = None, error = Some \<lparr> message = msg, code = errorCode \<rparr>, success = False \<rparr>"

text \<open>What awaiting a promise gives: a rejection (an exception at the await) or a value.\<close>

datatype 'a awaited = Rejects | Resolves 'a

text \<open>
  The prompts are kept as the data they are built from, not as the text of the
  template.
\<close>

datatype prompt =
    AnalysisPrompt SearchContext "string list" real
  | FollowupQueryPrompt SearchContext "json ResultAnalysis" nat

record GenerationOptions =
  temperature :: real
  maxOutputTokens :: nat

record SearchOptions =
  num :: nat
  searchLanguage :: "string option"
  searchRegion :: "string option"

text \<open>
  The two clients. Each call carries its number, so that a service may answer
  the same request differently the second time. A generation response is
  reduced to \<^verbatim>\<open>candidates?.[0]?.content?.parts?.[0]?.text\<close>, \<open>None\<close> when that
  path is missing. \<open>cleanHtml\<close> is the search client's own text cleaning.
\<close>

record 'm services =
  generateContent :: "nat \<Rightarrow> prompt \<Rightarrow> GenerationOptions
                        \<Rightarrow> string option ApiResponse awaited"
  searchService :: "nat \<Rightarrow> string \<Rightarrow> SearchOptions \<Rightarrow> 'm SearchResponse ApiResponse awaited"
  cleanHtml :: "string \<Rightarrow> string"

text \<open>
  The lines that the loop of search() prints, as events: the iteration number
  and the interpolated counts.
\<close>

datatype logEvent =
    LogAnalyzing nat
  | LogAnalysisFailed
  | LogStoppingCriteriaMet nat
  | LogNoInformationGaps nat
  | LogGeneratingFollowup nat
  | LogNoFollowupQueries nat
  | LogExecutingFollowup nat nat
  | LogNoNewResults nat
  | LogDiminishingReturns nat nat nat
  | LogNewResultsAdded nat nat nat
  | LogCompleted nat

text \<open>The state outside the orchestrator: calls made so far and the console.\<close>

record world =
  llmCalls :: nat
  searchCalls :: nat
  consoleLog :: "logEvent list"

definition logLine :: "logEvent \<Rightarrow> world \<Rightarrow> world" where
  "logLine e w = w\<lparr>consoleLog := consoleLog w @ [e]\<rparr>"

section \<open>analyzeSearchResults\<close>

text \<open>\<^verbatim>\<open>a || b\<close> on strings\<close>

definition orString :: "string \<Rightarrow> string \<Rightarrow> string" where
  "orString a b = (if a \<noteq> [] then a else b)"

definition extractContentForSynthesis :: "'m services \<Rightarrow> 'm SearchResponse \<Rightarrow> string list" where
  "extractContentForSynthesis sv searchResponse =
     map (\<lambda>item. ''Title: '' @ cleanHtml sv (orString (htmlTitle item) (title item))
                  @ [newline] @ ''URL: '' @ link item
                  @ [newline] @ ''Content: ''
                  @ cleanHtml sv (orString (htmlSnippet item) (snippet item)))
       (items searchResponse)"

definition emptyResultsAnalysis :: "json ResultAnalysis" where
  "emptyResultsAnalysis =
     \<lparr> completeness = Fin 0,
       informationGaps = [JStr ''No search results available''],
       gapCategories =
         \<lparr> factual = [JStr ''No factual information found''],
           contextual = [JStr ''No contextual information available''],
           verification = [],
           depth = [JStr ''No detailed information available''] \<rparr>,
       followupTopics = [],
       confidenceLevel = Fin 0,
       needsMoreSearch = True,
       reasoning = ''No search results were available for analysis'' \<rparr>"

definition noContentAnalysis :: "json ResultAnalysis" where
  "noContentAnalysis =
     \<lparr> completeness = Fin 10,
       informationGaps = [JStr ''No meaningful content extracted from search results''],
       gapCategories =
         \<lparr> factual = [JStr ''Limited factual data available''],
           contextual = [JStr ''Insufficient context provided''],
           verification = [],
           depth = [JStr ''Surface-level information only''] \<rparr>,
       followupTopics = [],
       confidenceLevel = Fin 20,
       needsMoreSearch = True,
       reasoning = ''Search results contained no meaningful extractable content'' \<rparr>"

text \<open>
  The method with its try/catch: a rejected generation call is the catch
  branch. The world counts the generation call.
\<close>

definition analyzeSearchResults :: "SearchOrchestrationConfig \<Rightarrow> jsRuntime \<Rightarrow> 'm services
    \<Rightarrow> SearchContext \<Rightarrow> 'm SearchResponse list \<Rightarrow> world
    \<Rightarrow> json ResultAnalysis ApiResponse \<times> world" where
  "analyzeSearchResults config js sv context searchResults w =
     (if searchResults = [] then (okResponse emptyResultsAnalysis, w)
      else
        (let allContent = concat (map (extractContentForSynthesis sv) searchResults)
         in if allContent = [] then (okResponse noContentAnalysis, w)
            else
              (let analysisPrompt =
                     AnalysisPrompt context allContent (completenessThreshold config);
                   w1 = w\<lparr>llmCalls := llmCalls w + 1\<rparr>
               in case generateContent sv (llmCalls w) analysisPrompt
                         \<lparr> temperature = 2 / 10, maxOutputTokens = 1024 \<rparr> of
                    Rejects \<Rightarrow>
                      (errorResponse ''Result analysis error'' ''ANALYSIS_ERROR'', w1)
                  | Resolves response \<Rightarrow>
                      (if \<not> success response \<or> data response = None
                       then (errorResponse ''Analysis generation failed'' ''ANALYSIS_FAILED'',
                             w1)
                       else
                         (case data response of
                            Some (Some generatedText) \<Rightarrow>
                              if generatedText = []
                              then (errorResponse ''No analysis generated''
                                      ''NO_ANALYSIS_GENERATED'', w1)
                              else (okResponse
                                      (parseAnalysisResponse js generatedText context), w1)
                          | _ \<Rightarrow>
                              (errorResponse ''No analysis generated''
                                 ''NO_ANALYSIS_GENERATED'', w1))))))"

section \<open>generateFollowupQueries\<close>

text \<open>
  The sequences of a parsed analysis hold arbitrary JSON values. The prompt
  template prints every entry, which throws when an entry cannot be printed.
\<close>

definition promptPrintable :: "jsRuntime \<Rightarrow> json ResultAnalysis \<Rightarrow> bool" where
  "promptPrintable js analysis =
     list_all (\<lambda>entry. jsToString js entry \<noteq> None)
       (informationGaps analysis
        @ factual (gapCategories analysis) @ contextual (gapCategories analysis)
        @ verification (gapCategories analysis) @ depth (gapCategories analysis)
        @ followupTopics analysis)"

fun asString :: "json \<Rightarrow> string option" where
  "asString (JStr s) = Some s"
| "asString _ = None"

text \<open>
  The analysis as calculateQueryPriority reads it: the entries of followupTopics
  and informationGaps must be strings (\<^verbatim>\<open>entry.toLowerCase()\<close> throws on anything
  else); of the gap categories only the lengths are read.
\<close>

definition typedAnalysis :: "json ResultAnalysis \<Rightarrow> string ResultAnalysis option" where
  "typedAnalysis analysis =
     (case (those (map asString (informationGaps analysis)),
            those (map asString (followupTopics analysis))) of
        (Some gaps, Some topics) \<Rightarrow>
          Some \<lparr> completeness = completeness analysis,
                 informationGaps = gaps,
                 gapCategories =
                   \<lparr> factual = map (\<lambda>e. case e of JStr s \<Rightarrow> s | _ \<Rightarrow> [])
                                 (factual (gapCategories analysis)),
                     contextual = map (\<lambda>e. case e of JStr s \<Rightarrow> s | _ \<Rightarrow> [])
                                    (contextual (gapCategories analysis)),
                     verification = map (\<lambda>e. case e of JStr s \<Rightarrow> s | _ \<Rightarrow> [])
                                      (verification (gapCategories analysis)),
                     depth = map (\<lambda>e. case e of JStr s \<Rightarrow> s | _ \<Rightarrow> [])
                               (depth (gapCategories analysis)) \<rparr>,
                 followupTopics = topics,
                 confidenceLevel = confidenceLevel analysis,
                 needsMoreSearch = needsMoreSearch analysis,
                 reasoning = reasoning analysis \<rparr>
      | _ \<Rightarrow> None)"

text \<open>Whether parseAndPrioritizeFollowupQueries scores any candidate at all.\<close>

definition scoresSomeCandidate :: "SearchOrchestrationConfig \<Rightarrow> string \<Rightarrow> SearchContext
    \<Rightarrow> bool" where
  "scoresSomeCandidate config generatedText context =
     (let lines = nonBlankLines generatedText
      in numberedQueries lines (query context) \<noteq> []
         \<or> take (maxFollowupQueries config)
              (filter (followupMeaningfulLine (query context)) lines) \<noteq> [])"

text \<open>
  The method with its try/catch. The catch branch is reached by a prompt that
  cannot be printed, by a rejected generation call, and by scoring against an
  analysis whose topics or gaps are not strings.
\<close>

definition generateFollowupQueries :: "SearchOrchestrationConfig \<Rightarrow> jsRuntime \<Rightarrow> 'm services
    \<Rightarrow> SearchContext \<Rightarrow> json ResultAnalysis \<Rightarrow> world
    \<Rightarrow> string list ApiResponse \<times> world" where
  "generateFollowupQueries config js sv context analysis w =
     (if \<not> needsMoreSearch analysis \<or> length (informationGaps analysis) = 0
      then (okResponse [], w)
      else if \<not> promptPrintable js analysis
      then (errorResponse ''Follow-up query generation error'' ''FOLLOWUP_GENERATION_ERROR'', w)
      else
        (let followupPrompt = FollowupQueryPrompt context analysis (maxFollowupQueries config);
             w1 = w\<lparr>llmCalls := llmCalls w + 1\<rparr>
         in case generateContent sv (llmCalls w) followupPrompt
                   \<lparr> temperature = 3 / 10, maxOutputTokens = 1024 \<rparr> of
              Rejects \<Rightarrow>
                (errorResponse ''Follow-up query generation error''
                   ''FOLLOWUP_GENERATION_ERROR'', w1)
            | Resolves response \<Rightarrow>
                (if \<not> success response \<or> data response = None
                 then (errorResponse ''Follow-up query generation failed''
                         ''FOLLOWUP_GENERATION_FAILED'', w1)
                 else
                   (case data response of
                      Some (Some generatedText) \<Rightarrow>
                        if generatedText = []
                        then (errorResponse ''No follow-up queries generated''
                                ''NO_FOLLOWUP_QUERIES_GENERATED'', w1)
                        else
                          (case typedAnalysis analysis of
                             Some typed \<Rightarrow>
                               (okResponse (parseAndPrioritizeFollowupQueries config
                                  generatedText context typed), w1)
                           | None \<Rightarrow>
                               if scoresSomeCandidate config generatedText context
                               then (errorResponse ''Follow-up query generation error''
                                       ''FOLLOWUP_GENERATION_ERROR'', w1)
                               else (okResponse [], w1))
                    | _ \<Rightarrow>
                        (errorResponse ''No follow-up queries generated''
                           ''NO_FOLLOWUP_QUERIES_GENERATED'', w1)))))"

section \<open>searchMultipleQueries\<close>

text \<open>
  All queries are issued, each with \<^verbatim>\<open>Math.ceil(maxSearchResults / queries.length)\<close>
  results asked for, and all are awaited (Promise.allSettled); a rejected
  search becomes an error response in its place.
\<close>

definition searchMultipleQueries :: "SearchOrchestrationConfig \<Rightarrow> 'm services \<Rightarrow> string list
    \<Rightarrow> SearchContext \<Rightarrow> world \<Rightarrow> 'm SearchResponse ApiResponse list \<times> world" where
  "searchMultipleQueries config sv queries context w =
     (let perQuery = (maxSearchResults config + length queries - 1) div length queries;
          options = \<lparr> num = perQuery, searchLanguage = language context,
                      searchRegion = region context \<rparr>
      in (map (\<lambda>(i, q).
                 case searchService sv (searchCalls w + i) q options of
                   Rejects \<Rightarrow> errorResponse (''Search failed for query: '' @ q)
                                ''INDIVIDUAL_SEARCH_FAILED''
                 | Resolves response \<Rightarrow> response)
            (enumerate 0 queries),
          w\<lparr>searchCalls := searchCalls w + length queries\<rparr>))"

text \<open>\<^verbatim>\<open>responses.filter(r => r.success && r.data).map(r => r.data!)\<close>\<close>

definition successfulData :: "'a ApiResponse list \<Rightarrow> 'a list" where
  "successfulData responses =
     map (\<lambda>r. the (data r)) (filter (\<lambda>r. success r \<and> data r \<noteq> None) responses)"

section \<open>The iterative loop of search\<close>

text \<open>\<^verbatim>\<open>results.reduce((total, result) => total + result.items.length, 0)\<close>\<close>

definition totalItemCount :: "'m SearchResponse list \<Rightarrow> nat" where
  "totalItemCount results = foldl (\<lambda>total result. total + length (items result)) 0 results"

text \<open>\<^verbatim>\<open>analysis.completeness >= threshold\<close>\<close>

definition reachesThreshold :: "jsnum \<Rightarrow> real \<Rightarrow> bool" where
  "reachesThreshold c threshold = jsLessEq (Fin threshold) c"

text \<open>How one pass through the loop body ends: by break, or by reaching its end.\<close>

datatype 'm bodyResult = Break "'m SearchResponse list" | Next "'m SearchResponse list"

text \<open>
  The end of the loop body, from the two counts to the increment: the new
  batches are merged into allSearchResults before the test, so a break leaves
  them merged.
\<close>

definition mergeAndCheck :: "SearchOrchestrationConfig \<Rightarrow> nat \<Rightarrow> 'm SearchResponse list
    \<Rightarrow> 'm SearchResponse list \<Rightarrow> world \<Rightarrow> 'm bodyResult \<times> world" where
  "mergeAndCheck config currentIteration allSearchResults newResults w =
     (let newResultsCount = totalItemCount newResults;
          previousResultsCount = totalItemCount allSearchResults;
          merged = allSearchResults @ newResults;
          aggregatedCurrentResults = aggregateResults config merged;
          uniqueResultsAfter = length (items aggregatedCurrentResults)
      in if newResultsCount = 0 \<or> uniqueResultsAfter \<le> previousResultsCount
         then (Break merged,
               logLine (LogDiminishingReturns currentIteration newResultsCount
                          uniqueResultsAfter) w)
         else (Next merged,
               logLine (LogNewResultsAdded currentIteration newResultsCount
                          uniqueResultsAfter) w))"

definition iterationBody :: "SearchOrchestrationConfig \<Rightarrow> jsRuntime \<Rightarrow> 'm services
    \<Rightarrow> SearchContext \<Rightarrow> nat \<Rightarrow> 'm SearchResponse list \<Rightarrow> world
    \<Rightarrow> 'm bodyResult \<times> world" where
  "iterationBody config js sv context currentIteration allSearchResults w =
     (case analyzeSearchResults config js sv context allSearchResults
             (logLine (LogAnalyzing currentIteration) w) of
        (analysisResponse, w1) \<Rightarrow>
     (case (if success analysisResponse then data analysisResponse else None) of
        None \<Rightarrow> (Break allSearchResults, logLine LogAnalysisFailed w1)
      | Some analysis \<Rightarrow>
     if \<not> needsMoreSearch analysis
        \<or> reachesThreshold (completeness analysis) (completenessThreshold config)
     then (Break allSearchResults, logLine (LogStoppingCriteriaMet currentIteration) w1)
     else if length (informationGaps analysis) = 0
     then (Break allSearchResults, logLine (LogNoInformationGaps currentIteration) w1)
     else
     (case generateFollowupQueries config js sv context analysis
             (logLine (LogGeneratingFollowup currentIteration) w1) of
        (followupResponse, w2) \<Rightarrow>
     (case (if success followupResponse then data followupResponse else None) of
        None \<Rightarrow> (Break allSearchResults, logLine (LogNoFollowupQueries currentIteration) w2)
      | Some followupQueries \<Rightarrow>
     if length followupQueries = 0
     then (Break allSearchResults, logLine (LogNoFollowupQueries currentIteration) w2)
     else
     (case searchMultipleQueries config sv followupQueries context
             (logLine (LogExecutingFollowup currentIteration (length followupQueries)) w2) of
        (followupSearchResponses, w3) \<Rightarrow>
     (let newResults = successfulData followupSearchResponses
      in if length newResults = 0
         then (Break allSearchResults, logLine (LogNoNewResults currentIteration) w3)
         else mergeAndCheck config currentIteration allSearchResults newResults w3))))))"

text \<open>The state of the loop: the two variables it changes.\<close>

record 'm loopState =
  allSearchResults :: "'m SearchResponse list"
  currentIteration :: nat

function searchLoop :: "SearchOrchestrationConfig \<Rightarrow> jsRuntime \<Rightarrow> 'm services
    \<Rightarrow> SearchContext \<Rightarrow> 'm loopState \<Rightarrow> world \<Rightarrow> 'm loopState \<times> world" where
  "searchLoop config js sv context st w =
     (if currentIteration st < maxSearchIterations config
      then (case iterationBody config js sv context (currentIteration st)
                   (allSearchResults st) w of
              (Break results, w') \<Rightarrow> (st\<lparr>allSearchResults := results\<rparr>, w')
            | (Next results, w') \<Rightarrow>
                searchLoop config js sv context
                  \<lparr> allSearchResults = results, currentIteration = currentIteration st + 1 \<rparr>
                  w')
      else (st, w))"
  by pat_completeness auto
termination
  by (relation "measure (\<lambda>(config, js, sv, context, st, w).
        maxSearchIterations config - currentIteration st)") auto

declare searchLoop.simps [simp del]

text \<open>
  Step 2 of search(): the loop runs when iterative search is enabled and
  maxSearchIterations exceeds 1, starting from the initial batches with
  currentIteration 1.
\<close>

definition iterativeRefinement :: "SearchOrchestrationConfig \<Rightarrow> jsRuntime \<Rightarrow> 'm services
    \<Rightarrow> SearchContext \<Rightarrow> 'm SearchResponse list \<Rightarrow> world \<Rightarrow> 'm loopState \<times> world" where
  "iterativeRefinement config js sv context iterationResults w =
     (let st = \<lparr> allSearchResults = iterationResults, currentIteration = 1 \<rparr>
      in if enableIterativeSearch config \<and> maxSearchIterations config > 1
         then (case searchLoop config js sv context st w of
                 (st', w') \<Rightarrow> (st', logLine (LogCompleted (currentIteration st')) w'))
         else (st, w))"

text \<open>The follow-up search rounds and the analyses that the console shows.\<close>

fun isFollowupRound :: "logEvent \<Rightarrow> bool" where
  "isFollowupRound (LogExecutingFollowup _ _) = True"
| "isFollowupRound _ = False"

fun isAnalysis :: "logEvent \<Rightarrow> bool" where
  "isAnalysis (LogAnalyzing _) = True"
| "isAnalysis _ = False"

definition followupRounds :: "world \<Rightarrow> nat" where
  "followupRounds w = length (filter isFollowupRound (consoleLog w))"

definition analysesStarted :: "world \<Rightarrow> nat" where
  "analysesStarted w = length (filter isAnalysis (consoleLog w))"

section \<open>Sample data for the examples\<close>

definition exampleContext :: SearchContext where
  "exampleContext =
     \<lparr> query = ''Complex scientific topic'', focusMode = Academic,
       language = Some ''en'', region = Some ''US'', timeFilter = None \<rparr>"

definition initialWorld :: world where
  "initialWorld = \<lparr> llmCalls = 0, searchCalls = 0, consoleLog = [] \<rparr>"

text \<open>A reply whose completeness is a word, and a reply that reports completeness 50.\<close>

definition wordReply :: string where
  \<open>wordReply = ''{"completeness": "high", "confidenceLevel": 80, "needsMoreSearch": true}''\<close>

definition halfReply :: string where
  \<open>halfReply =
     ''{"completeness": 50, "informationGaps": ["Missing recent studies"], "needsMoreSearch": true}''\<close>

text \<open>
  JSON.parse on the two replies above (it throws on every other text used here),
  the conversion of a string of decimal digits to its value and of a string
  that is no numeral, such as "high", to NaN. Numbers are never printed in the
  examples.
\<close>

definition sampleRuntime :: jsRuntime where
  "sampleRuntime =
     \<lparr> jsonParse = map_of
         [(wordReply, JObj [(''completeness'', JStr ''high''),
                            (''confidenceLevel'', JNum (Fin 80)),
                            (''needsMoreSearch'', JBool True)]),
          (halfReply, JObj [(''completeness'', JNum (Fin 50)),
                            (''informationGaps'', JArr [JStr ''Missing recent studies'']),
                            (''needsMoreSearch'', JBool True)])],
       stringToNumber = (\<lambda>s. if s \<noteq> [] \<and> list_all isDigit s
                              then Fin (real (foldl (\<lambda>v c. 10 * v + (of_char c - 48)) 0 s))
                              else NaN),
       numberToString = (\<lambda>n. []) \<rparr>"

text \<open>
  Services that answer from a script, call by call, and reject once the script
  is used up; the sample items carry no markup, so cleaning leaves them alone.
\<close>

definition scriptedServices :: "string option ApiResponse awaited list
    \<Rightarrow> 'm SearchResponse ApiResponse awaited list \<Rightarrow> 'm services" where
  "scriptedServices generations searches =
     \<lparr> generateContent = (\<lambda>n p options. if n < length generations then generations ! n
                                         else Rejects),
       searchService = (\<lambda>n q options. if n < length searches then searches ! n else Rejects),
       cleanHtml = (\<lambda>s. s) \<rparr>"

definition replyWith :: "string \<Rightarrow> string option ApiResponse awaited" where
  "replyWith generatedText = Resolves (okResponse (Some generatedText))"

definition failedGeneration :: "string option ApiResponse awaited" where
  "failedGeneration = Resolves (errorResponse ''HTTP 500'' ''500'')"

section \<open>Properties of the aggregation\<close>

lemma dedupLoop_acc:
  "dedupLoop xs seen acc = acc @ dedupLoop xs seen []"
proof (induction xs arbitrary: seen acc)
  case Nil
  show ?case by simp
next
  case (Cons x xs)
  show ?case
  proof (cases "link x \<in> seen")
    case True
    then show ?thesis using Cons.IH [of seen acc] by simp
  next
    case False
    then show ?thesis
      using Cons.IH [of "insert (link x) seen" "acc @ [x]"]
            Cons.IH [of "insert (link x) seen" "[x]"]
      by simp
  qed
qed

lemma dedupLoop_keepFirst:
  "dedupLoop xs seen [] = keepFirstByUrl (filter (\<lambda>y. link y \<notin> seen) xs)"
proof (induction xs arbitrary: seen)
  case Nil
  show ?case by simp
next
  case (Cons x xs)
  show ?case
  proof (cases "link x \<in> seen")
    case True
    then show ?thesis using Cons.IH [of seen] by simp
  next
    case False
    have eq: "(\<lambda>y. link y \<notin> insert (link x) seen) = (\<lambda>y. link y \<notin> seen \<and> link y \<noteq> link x)"
      by auto
    have "dedupLoop (x # xs) seen [] = x # dedupLoop xs (insert (link x) seen) []"
      using False dedupLoop_acc [of xs "insert (link x) seen" "[x]"] by simp
    also have "\<dots> = x # keepFirstByUrl (filter (\<lambda>y. link y \<notin> insert (link x) seen) xs)"
      using Cons.IH [of "insert (link x) seen"] by simp
    also have "\<dots> = keepFirstByUrl (filter (\<lambda>y. link y \<notin> seen) (x # xs))"
      using False by (simp add: eq conj_commute)
    finally show ?thesis .
  qed
qed

lemma set_keepFirstByUrl: "set (keepFirstByUrl xs) \<subseteq> set xs"
  by (induction xs rule: keepFirstByUrl.induct) auto

lemma distinct_keepFirstByUrl: "distinct (map link (keepFirstByUrl xs))"
proof (induction xs rule: keepFirstByUrl.induct)
  case 1
  show ?case by simp
next
  case (2 x xs)
  have "link x \<notin> link ` set (keepFirstByUrl (filter (\<lambda>y. link y \<noteq> link x) xs))"
    using set_keepFirstByUrl [of "filter (\<lambda>y. link y \<noteq> link x) xs"] by auto
  then show ?case using 2 by simp
qed

lemma keepFirstByUrl_distinct: "distinct (map link xs) \<Longrightarrow> keepFirstByUrl xs = xs"
proof (induction xs)
  case Nil
  show ?case by simp
next
  case (Cons x xs)
  then have nx: "link x \<notin> set (map link xs)" by simp
  have "\<And>y. y \<in> set xs \<Longrightarrow> link y \<noteq> link x"
  proof
    fix y assume "y \<in> set xs" and "link y = link x"
    then have "link x \<in> set (map link xs)" by (metis imageI set_map)
    with nx show False by simp
  qed
  then have "filter (\<lambda>y. link y \<noteq> link x) xs = xs"
    by (simp add: filter_id_conv)
  then show ?case using Cons by simp
qed


lemma items_aggregateResults:
  "items (aggregateResults config rs) =
     take (maxSearchResults config) (keepFirstByUrl (concat (map items rs)))"
  using dedupLoop_keepFirst [of "concat (map items rs)" "{}"]
  by (simp add: aggregateResults_def Let_def)

lemma subseq_keepFirstByUrl: "subseq (keepFirstByUrl xs) xs"
proof (induction xs rule: keepFirstByUrl.induct)
  case 1
  show ?case by simp
next
  case (2 x xs)
  have "subseq (filter (\<lambda>y. link y \<noteq> link x) xs) xs" by simp
  with 2 have "subseq (keepFirstByUrl (filter (\<lambda>y. link y \<noteq> link x) xs)) xs"
    using subseq_order.order_trans by blast
  then show ?case by simp
qed

lemma find_filter_implied:
  "(\<And>y. P y \<Longrightarrow> Q y) \<Longrightarrow> find P (filter Q xs) = find P xs"
  by (induction xs) auto

lemma keepFirstByUrl_first:
  "x \<in> set (keepFirstByUrl xs) \<Longrightarrow> find (\<lambda>y. link y = link x) xs = Some x"
proof (induction xs rule: keepFirstByUrl.induct)
  case 1
  then show ?case by simp
next
  case (2 z zs)
  show ?case
  proof (cases "x = z")
    case True
    then show ?thesis by simp
  next
    case False
    with 2 have mem: "x \<in> set (keepFirstByUrl (filter (\<lambda>y. link y \<noteq> link z) zs))"
      by simp
    then have "x \<in> set (filter (\<lambda>y. link y \<noteq> link z) zs)"
      using set_keepFirstByUrl by blast
    then have ne: "link x \<noteq> link z" by simp
    have "find (\<lambda>y. link y = link x) (filter (\<lambda>y. link y \<noteq> link z) zs) = Some x"
      using 2 mem by simp
    moreover have "find (\<lambda>y. link y = link x) (filter (\<lambda>y. link y \<noteq> link z) zs)
        = find (\<lambda>y. link y = link x) zs"
      using ne by (intro find_filter_implied) simp
    ultimately show ?thesis using ne by simp
  qed
qed

lemma links_keepFirstByUrl: "link ` set (keepFirstByUrl xs) = link ` set xs"
proof (induction xs rule: keepFirstByUrl.induct)
  case 1
  show ?case by simp
next
  case (2 x xs)
  then show ?case by auto
qed


text \<open>
  C1. For a non-empty sequence of batches, aggregateResults returns the
  flattening (batch order, then item order) deduplicated by URL with the first
  occurrence kept, cut to maxSearchResults. The result is a subsequence of the
  flattening, each of its items is the first item of the flattening with that
  URL, no two of its items share a URL, it has at most maxSearchResults items,
  and when nothing is cut every URL of the flattening is present. With a cap of
  at least 3 (the default is 10) the batches [a, b] and [b, c] give [a, b, c].
\<close>

theorem aggregateResults_flatten_dedup_truncate:
  fixes searchResponses :: "'m SearchResponse list"
  assumes "searchResponses \<noteq> []"
  shows "items (aggregateResults config searchResponses)
           = take (maxSearchResults config)
               (keepFirstByUrl (concat (map items searchResponses)))
       \<and> subseq (items (aggregateResults config searchResponses))
               (concat (map items searchResponses))
       \<and> (\<forall>x \<in> set (items (aggregateResults config searchResponses)).
             find (\<lambda>y. link y = link x) (concat (map items searchResponses)) = Some x)
       \<and> distinct (map link (items (aggregateResults config searchResponses)))
       \<and> length (items (aggregateResults config searchResponses)) \<le> maxSearchResults config
       \<and> (length (keepFirstByUrl (concat (map items searchResponses))) \<le> maxSearchResults config
            \<longrightarrow> link ` set (items (aggregateResults config searchResponses))
                  = link ` set (concat (map items searchResponses)))
       \<and> (3 \<le> maxSearchResults config \<longrightarrow>
            map link (items (aggregateResults config
              [batchOf [urlItem ''a'', urlItem ''b''],
               batchOf [urlItem ''b'', urlItem ''c''] :: 'm SearchResponse]))
            = [''a'', ''b'', ''c''])"
proof -
  let ?all = "concat (map items searchResponses)"
  let ?out = "items (aggregateResults config searchResponses)"
  have out: "?out = take (maxSearchResults config) (keepFirstByUrl ?all)"
    by (rule items_aggregateResults)
  have sub: "subseq ?out ?all"
  proof -
    have "subseq (take (maxSearchResults config) (keepFirstByUrl ?all)) (keepFirstByUrl ?all)"
      by (rule sublist_imp_subseq) (rule sublist_take)
    then show ?thesis
      unfolding out using subseq_keepFirstByUrl [of ?all] subseq_order.order_trans by blast
  qed
  have first: "\<forall>x \<in> set ?out. find (\<lambda>y. link y = link x) ?all = Some x"
  proof
    fix x assume "x \<in> set ?out"
    then have "x \<in> set (keepFirstByUrl ?all)"
      unfolding out by (rule in_set_takeD)
    then show "find (\<lambda>y. link y = link x) ?all = Some x"
      by (rule keepFirstByUrl_first)
  qed
  have dist: "distinct (map link ?out)"
    unfolding out take_map [symmetric]
    by (rule distinct_take) (rule distinct_keepFirstByUrl)
  have len: "length ?out \<le> maxSearchResults config"
    unfolding out by simp
  have cover: "length (keepFirstByUrl ?all) \<le> maxSearchResults config
      \<longrightarrow> link ` set ?out = link ` set ?all"
    unfolding out by (simp add: links_keepFirstByUrl)
  have scen: "3 \<le> maxSearchResults config \<longrightarrow>
      map link (items (aggregateResults config
        [batchOf [urlItem ''a'', urlItem ''b''],
         batchOf [urlItem ''b'', urlItem ''c''] :: 'm SearchResponse]))
      = [''a'', ''b'', ''c'']"
    by (simp add: items_aggregateResults batchOf_def urlItem_def take_map [symmetric])
  from out sub first dist len cover scen show ?thesis by blast
qed

theorem aggregateResults_flatten_dedup_truncate_witness:
  "[batchOf [urlItem ''a'', urlItem ''b''],
    batchOf [urlItem ''b'', urlItem ''c''] :: unit SearchResponse] \<noteq> []
   \<and> items (aggregateResults exampleConfig
        [batchOf [urlItem ''a'', urlItem ''b''],
         batchOf [urlItem ''b'', urlItem ''c''] :: unit SearchResponse])
       = [urlItem ''a'', urlItem ''b'', urlItem ''c'']"
proof -
  have ne: "[batchOf [urlItem ''a'', urlItem ''b''],
    batchOf [urlItem ''b'', urlItem ''c''] :: unit SearchResponse] \<noteq> []" by simp
  show ?thesis
    using aggregateResults_flatten_dedup_truncate [OF ne, of exampleConfig]
    by (simp add: exampleConfig_def batchOf_def urlItem_def)
qed

text \<open>
  C2. Aggregation is idempotent: aggregating the single batch that an
  aggregation returned gives the same item sequence again, for every sequence
  of batches (the empty one included).
\<close>

theorem aggregateResults_idempotent:
  "items (aggregateResults config [aggregateResults config searchResponses])
     = items (aggregateResults config searchResponses)"
proof -
  let ?out = "items (aggregateResults config searchResponses)"
  have "distinct (map link ?out)"
    unfolding items_aggregateResults take_map [symmetric]
    by (rule distinct_take) (rule distinct_keepFirstByUrl)
  then have "keepFirstByUrl ?out = ?out"
    by (rule keepFirstByUrl_distinct)
  moreover have "length ?out \<le> maxSearchResults config"
    by (simp add: items_aggregateResults)
  ultimately show ?thesis
    by (simp add: items_aggregateResults [of config "[aggregateResults config searchResponses]"])
qed

text \<open>
  C10. On the empty sequence of batches aggregateResults returns a response
  (the model has no failing branch: spreading the missing first batch adds
  nothing) with no items, totalResults 0 and hasNextPage false.
\<close>

theorem aggregateResults_empty:
  "aggregateResults config []
     = \<lparr> items = [], searchInformation = None, totalResults = 0,
         hasNextPage = False, nextPageStartIndex = None \<rparr>"
  by (simp add: aggregateResults_def firstResponse_def)

section \<open>Properties of parseGeneratedQueries\<close>

lemma numberedQueries_no_match:
  "\<forall>line \<in> set lines. matchNumbered line = None \<Longrightarrow> numberedQueries lines originalQuery = []"
  by (induction lines) simp_all

text \<open>
  C6. With maxGeneratedQueries at least 1, parseGeneratedQueries returns at
  least one and at most maxGeneratedQueries queries, for every generated text
  and original query; when neither the numbered lines nor the fallback yield
  anything, the result is the original query alone.
\<close>

theorem parseGeneratedQueries_nonempty_bounded:
  assumes "1 \<le> maxGeneratedQueries config"
  shows "1 \<le> length (parseGeneratedQueries config generatedText originalQuery)
       \<and> length (parseGeneratedQueries config generatedText originalQuery)
           \<le> maxGeneratedQueries config
       \<and> (numberedQueries (nonBlankLines generatedText) originalQuery = []
            \<and> filter (meaningfulLine originalQuery) (nonBlankLines generatedText) = []
          \<longrightarrow> parseGeneratedQueries config generatedText originalQuery = [originalQuery])"
proof -
  let ?lines = "nonBlankLines generatedText"
  let ?q1 = "numberedQueries ?lines originalQuery"
  let ?q2 = "if ?q1 = [] then take (maxGeneratedQueries config)
               (filter (meaningfulLine originalQuery) ?lines) else ?q1"
  let ?q3 = "if ?q2 = [] then [originalQuery] else ?q2"
  have res: "parseGeneratedQueries config generatedText originalQuery
      = take (maxGeneratedQueries config) ?q3"
    by (simp add: parseGeneratedQueries_def Let_def)
  have "?q3 \<noteq> []" by simp
  then have "1 \<le> length ?q3" by (simp add: Suc_le_eq)
  with assms have lower: "1 \<le> length (take (maxGeneratedQueries config) ?q3)"
    by simp
  have upper: "length (take (maxGeneratedQueries config) ?q3) \<le> maxGeneratedQueries config"
    by simp
  have fallback: "?q1 = [] \<and> filter (meaningfulLine originalQuery) ?lines = []
      \<longrightarrow> take (maxGeneratedQueries config) ?q3 = [originalQuery]"
    using assms by (simp add: take_Cons')
  from lower upper fallback show ?thesis unfolding res by blast
qed

theorem parseGeneratedQueries_nonempty_bounded_witness:
  "1 \<le> maxGeneratedQueries exampleConfig
   \<and> parseGeneratedQueries exampleConfig [] ''solar panels'' = [''solar panels'']"
proof -
  have h: "1 \<le> maxGeneratedQueries exampleConfig" by (simp add: exampleConfig_def)
  show ?thesis
    using parseGeneratedQueries_nonempty_bounded [OF h, of "[]" "''solar panels''"]
    by (simp add: nonBlankLines_def trim_def exampleConfig_def)
qed

text \<open>
  C9, as stated, fails: the fallback filter tests \<^verbatim>\<open>line.length > 5\<close>, so the
  5-character reply "hello", which matches no numbered pattern, is no
  meta-commentary and is not the original query, is not accepted; the original
  query is returned instead.
\<close>

theorem fallback_rejects_five_character_line:
  "length ''hello'' = 5
   \<and> nonBlankLines ''hello'' = [''hello'']
   \<and> matchNumbered ''hello'' = None
   \<and> \<not> includesStr (toLowerCase ''hello'') ''here are''
   \<and> \<not> includesStr (toLowerCase ''hello'') ''search queries''
   \<and> \<not> includesStr (toLowerCase ''hello'') ''cannot generate''
   \<and> ''hello'' \<noteq> ''what is x''
   \<and> ''hello'' \<notin> set (parseGeneratedQueries exampleConfig ''hello'' ''what is x'')"
  by (simp add: parseGeneratedQueries_def nonBlankLines_def newline_def trim_def
        isWhiteSpace_def matchNumbered_def isDigit_def meaningfulLine_def exampleConfig_def
        toLowerCase_def toLowerChar_def)

text \<open>
  C9, amended. When no line of the reply matches the numbered-list pattern,
  the result is the first maxGeneratedQueries of the non-blank lines that have
  more than 5 characters, do not contain "here are", "search queries" or
  "cannot generate" once lower-cased, and differ from the original query (the
  original query when there is no such line). Every returned line other than
  the original query has more than 5 characters, and when at most
  maxGeneratedQueries lines qualify each of them is returned.
\<close>

theorem fallback_accepts_lines_longer_than_five:
  assumes "\<forall>line \<in> set (nonBlankLines generatedText). matchNumbered line = None"
  shows "parseGeneratedQueries config generatedText originalQuery
           = (if filter (meaningfulLine originalQuery) (nonBlankLines generatedText) = []
              then take (maxGeneratedQueries config) [originalQuery]
              else take (maxGeneratedQueries config)
                     (filter (meaningfulLine originalQuery) (nonBlankLines generatedText)))
       \<and> (\<forall>line \<in> set (parseGeneratedQueries config generatedText originalQuery).
             length line > 5 \<or> line = originalQuery)
       \<and> (\<forall>line \<in> set (nonBlankLines generatedText).
             meaningfulLine originalQuery line
             \<and> length (filter (meaningfulLine originalQuery) (nonBlankLines generatedText))
                 \<le> maxGeneratedQueries config
             \<longrightarrow> line \<in> set (parseGeneratedQueries config generatedText originalQuery))"
proof -
  let ?lines = "nonBlankLines generatedText"
  let ?m = "filter (meaningfulLine originalQuery) ?lines"
  let ?n = "maxGeneratedQueries config"
  have q1: "numberedQueries ?lines originalQuery = []"
    using assms by (rule numberedQueries_no_match)
  have res: "parseGeneratedQueries config generatedText originalQuery
      = (if ?m = [] then take ?n [originalQuery] else take ?n ?m)"
  proof (cases "take ?n ?m = []")
    case True
    then show ?thesis
      using q1 by (auto simp: parseGeneratedQueries_def Let_def)
  next
    case False
    then show ?thesis
      using q1 by (auto simp: parseGeneratedQueries_def Let_def)
  qed
  have long: "\<forall>line \<in> set (parseGeneratedQueries config generatedText originalQuery).
      length line > 5 \<or> line = originalQuery"
  proof
    fix line
    assume mem: "line \<in> set (parseGeneratedQueries config generatedText originalQuery)"
    show "length line > 5 \<or> line = originalQuery"
    proof (cases "?m = []")
      case True
      with mem res have "line \<in> set (take ?n [originalQuery])" by simp
      then have "line \<in> set [originalQuery]" by (rule in_set_takeD)
      then show ?thesis by simp
    next
      case False
      with mem res have "line \<in> set (take ?n ?m)" by simp
      then have "line \<in> set ?m" by (rule in_set_takeD)
      then show ?thesis by (simp add: meaningfulLine_def)
    qed
  qed
  have all: "\<forall>line \<in> set ?lines. meaningfulLine originalQuery line \<and> length ?m \<le> ?n
      \<longrightarrow> line \<in> set (parseGeneratedQueries config generatedText originalQuery)"
  proof (intro ballI impI)
    fix line
    assume l: "line \<in> set ?lines" and h: "meaningfulLine originalQuery line \<and> length ?m \<le> ?n"
    then have "line \<in> set ?m" by simp
    moreover from this have "?m \<noteq> []" by (metis empty_iff empty_set)
    moreover have "take ?n ?m = ?m" using h by simp
    ultimately show "line \<in> set (parseGeneratedQueries config generatedText originalQuery)"
      using res by simp
  qed
  from res long all show ?thesis by blast
qed

theorem fallback_accepts_lines_longer_than_five_witness:
  "nonBlankLines ''hello!'' = [''hello!'']
   \<and> matchNumbered ''hello!'' = None
   \<and> parseGeneratedQueries exampleConfig ''hello!'' ''what is x'' = [''hello!'']"
proof -
  have h: "\<forall>line \<in> set (nonBlankLines ''hello!''). matchNumbered line = None"
    by (simp add: nonBlankLines_def newline_def trim_def isWhiteSpace_def matchNumbered_def
          isDigit_def)
  show ?thesis
    using h fallback_accepts_lines_longer_than_five [OF h, of exampleConfig "''what is x''"]
    by (simp add: nonBlankLines_def newline_def trim_def isWhiteSpace_def meaningfulLine_def
          toLowerCase_def toLowerChar_def exampleConfig_def)
qed

section \<open>Properties of the follow-up query priority\<close>










section \<open>Properties of the result analysis\<close>

lemma mathMax_mathMin_range:
  "mathMax (Fin 0) (mathMin (Fin 100) n) = NaN
   \<or> withinPercent (mathMax (Fin 0) (mathMin (Fin 100) n))"
  by (cases n) (auto simp: mathMax_def mathMin_def)

lemma clampPercent_range:
  "clampPercent js v = Some n \<Longrightarrow> n = NaN \<or> withinPercent n"
  using mathMax_mathMin_range by (auto simp: clampPercent_def)

lemma sanitizeAnalysis_range:
  assumes "sanitizeAnalysis js analysisData = Some a"
  shows "(completeness a = NaN \<or> withinPercent (completeness a))
       \<and> (confidenceLevel a = NaN \<or> withinPercent (confidenceLevel a))"
proof -
  from assms obtain c k where
    c: "clampPercent js (getMember analysisData ''completeness'') = Some c" and
    k: "clampPercent js (getMember analysisData ''confidenceLevel'') = Some k" and
    a: "completeness a = c" "confidenceLevel a = k"
    by (auto simp: sanitizeAnalysis_def Let_def split: if_splits option.splits)
  from clampPercent_range [OF c] clampPercent_range [OF k] a show ?thesis by simp
qed

lemma parseAnalysisResponse_range:
  "(completeness (parseAnalysisResponse js generatedText context) = NaN
      \<or> withinPercent (completeness (parseAnalysisResponse js generatedText context)))
   \<and> (confidenceLevel (parseAnalysisResponse js generatedText context) = NaN
      \<or> withinPercent (confidenceLevel (parseAnalysisResponse js generatedText context)))"
  using sanitizeAnalysis_range
  by (auto simp: parseAnalysisResponse_def fallbackAnalysis_def split: option.splits)

lemma analyzeSearchResults_data:
  assumes "analyzeSearchResults config js sv context searchResults w = (r, w')"
      and "data r = Some a"
  shows "a = emptyResultsAnalysis \<or> a = noContentAnalysis
       \<or> (\<exists>generatedText. a = parseAnalysisResponse js generatedText context)"
  using assms
  by (auto simp: analyzeSearchResults_def Let_def okResponse_def errorResponse_def
      split: if_splits awaited.splits option.splits)

lemma analyzeSearchResults_range:
  assumes "analyzeSearchResults config js sv context searchResults w = (r, w')"
      and "data r = Some a"
  shows "(completeness a = NaN \<or> withinPercent (completeness a))
       \<and> (confidenceLevel a = NaN \<or> withinPercent (confidenceLevel a))"
proof -
  consider "a = emptyResultsAnalysis" | "a = noContentAnalysis"
    | generatedText where "a = parseAnalysisResponse js generatedText context"
    using analyzeSearchResults_data [OF assms] by blast
  then show ?thesis
  proof cases
    case 1
    then show ?thesis by (simp add: emptyResultsAnalysis_def)
  next
    case 2
    then show ?thesis by (simp add: noContentAnalysis_def)
  next
    case 3
    then show ?thesis using parseAnalysisResponse_range by simp
  qed
qed

lemma clampPercent_number:
  "clampPercent js (Some (JNum n)) = Some m \<Longrightarrow> withinPercent m"
  by (cases n) (auto simp: clampPercent_def orElse_def mathMax_def mathMin_def split: if_splits)

lemma clampPercent_absent:
  "clampPercent js None = Some (Fin 0)" "clampPercent js (Some JNull) = Some (Fin 0)"
  by (simp_all add: clampPercent_def orElse_def mathMax_def mathMin_def)

lemma sanitizeAnalysis_sequences:
  assumes "sanitizeAnalysis js analysisData = Some a"
  shows "informationGaps a = arrayOrEmpty (getMember analysisData ''informationGaps'')"
    and "followupTopics a = arrayOrEmpty (getMember analysisData ''followupTopics'')"
    and "factual (gapCategories a)
           = arrayOrEmpty (optionalMember (getMember analysisData ''gapCategories'') ''factual'')"
    and "contextual (gapCategories a)
           = arrayOrEmpty (optionalMember (getMember analysisData ''gapCategories'') ''contextual'')"
    and "verification (gapCategories a)
           = arrayOrEmpty (optionalMember (getMember analysisData ''gapCategories'') ''verification'')"
    and "depth (gapCategories a)
           = arrayOrEmpty (optionalMember (getMember analysisData ''gapCategories'') ''depth'')"
  using assms
  by (auto simp: sanitizeAnalysis_def Let_def split: if_splits option.splits)

text \<open>
  C5. The sequence fields of every returned analysis are arrays, and the two
  percentages are within [0, 100] or NaN (the lemmas above). NaN does occur:
  for the reply whose completeness is the word "high", \<^verbatim>\<open>Math.min(100, "high")\<close> is
  NaN and the clamp keeps it, so the analysis is returned with success and a
  completeness outside [0, 100].
\<close>

theorem analysis_completeness_not_a_number:
  "fst (analyzeSearchResults exampleConfig sampleRuntime
          (scriptedServices [replyWith wordReply] []) exampleContext
          [batchOf [urlItem ''a'' :: unit SearchResult]] initialWorld)
     = okResponse
         \<lparr> completeness = NaN, informationGaps = [],
           gapCategories = \<lparr> factual = [], contextual = [], verification = [], depth = [] \<rparr>,
           followupTopics = [], confidenceLevel = Fin 80, needsMoreSearch = True,
           reasoning = ''Analysis completed'' \<rparr>
   \<and> \<not> withinPercent NaN"
  by code_simp

theorem analysis_completeness_not_a_number_witness:
  "map_option completeness
     (data (fst (analyzeSearchResults exampleConfig sampleRuntime
        (scriptedServices [replyWith wordReply] []) exampleContext
        [batchOf [urlItem ''a'' :: unit SearchResult]] initialWorld))) = Some NaN"
  using analysis_completeness_not_a_number by (simp add: okResponse_def)

section \<open>Properties of generateFollowupQueries\<close>

text \<open>
  C7. For an analysis with needsMoreSearch false, and for one with no
  information gaps, generateFollowupQueries returns the successful empty
  sequence and leaves the world as it was: the count of generation calls is
  unchanged, whatever the services are.
\<close>

theorem generateFollowupQueries_short_circuit:
  assumes "\<not> needsMoreSearch analysis \<or> informationGaps analysis = []"
  shows "generateFollowupQueries config js sv context analysis w = (okResponse [], w)
       \<and> success (fst (generateFollowupQueries config js sv context analysis w))
       \<and> data (fst (generateFollowupQueries config js sv context analysis w)) = Some []
       \<and> llmCalls (snd (generateFollowupQueries config js sv context analysis w)) = llmCalls w"
  using assms by (auto simp: generateFollowupQueries_def okResponse_def)

theorem generateFollowupQueries_short_circuit_witness:
  "\<not> needsMoreSearch (emptyResultsAnalysis\<lparr>needsMoreSearch := False\<rparr>)
   \<and> generateFollowupQueries exampleConfig sampleRuntime
        (scriptedServices [replyWith ''1. never asked''] [] :: unit services) exampleContext
        (emptyResultsAnalysis\<lparr>needsMoreSearch := False\<rparr>) initialWorld
       = (okResponse [], initialWorld)"
proof -
  have h: "\<not> needsMoreSearch (emptyResultsAnalysis\<lparr>needsMoreSearch := False\<rparr>)
      \<or> informationGaps (emptyResultsAnalysis\<lparr>needsMoreSearch := False\<rparr>) = []"
    by simp
  show ?thesis
    using generateFollowupQueries_short_circuit [OF h, of exampleConfig sampleRuntime
        "scriptedServices [replyWith ''1. never asked''] [] :: unit services"
        exampleContext initialWorld]
    by simp
qed

section \<open>Properties of the iterative loop\<close>

lemma foldl_item_count:
  "foldl (\<lambda>total result. total + length (items result)) n results
     = n + length (concat (map items results))"
  by (induction results arbitrary: n) simp_all

lemma totalItemCount_flatten:
  "totalItemCount results = length (concat (map items results))"
  by (simp add: totalItemCount_def foldl_item_count)

lemma unique_after_bounded_without_new_items:
  assumes "totalItemCount newResults = 0"
  shows "length (items (aggregateResults config (allResults @ newResults)))
           \<le> totalItemCount allResults"
proof -
  have "concat (map items newResults) = []"
    using assms by (simp add: totalItemCount_flatten)
  then have flat: "concat (map items (allResults @ newResults)) = concat (map items allResults)"
    by simp
  have "items (aggregateResults config (allResults @ newResults))
      = take (maxSearchResults config) (keepFirstByUrl (concat (map items allResults)))"
    unfolding items_aggregateResults flat ..
  moreover have "length (keepFirstByUrl (concat (map items allResults)))
      \<le> length (concat (map items allResults))"
    using subseq_keepFirstByUrl by (rule list_emb_length)
  ultimately show ?thesis by (simp add: totalItemCount_flatten)
qed

lemma mergeAndCheck_result:
  "fst (mergeAndCheck config i allResults newResults w)
     = (if length (items (aggregateResults config (allResults @ newResults)))
             \<le> totalItemCount allResults
        then Break (allResults @ newResults) else Next (allResults @ newResults))"
  using unique_after_bounded_without_new_items [of newResults config allResults]
  by (simp add: mergeAndCheck_def Let_def)

lemma searchLoop_break:
  assumes "currentIteration st < maxSearchIterations config"
      and "iterationBody config js sv context (currentIteration st) (allSearchResults st) w
             = (Break results, w')"
  shows "searchLoop config js sv context st w = (st\<lparr>allSearchResults := results\<rparr>, w')"
  using assms by (subst searchLoop.simps) simp

text \<open>
  What the end of the loop body computes: it breaks exactly when the item count
  of the aggregation of the merged batches (deduplicated, cut to
  maxSearchResults) does not exceed the plain sum of the batch sizes before the
  merge. The right-hand side counts duplicates, the left-hand side does not.
\<close>

lemma mergeAndCheck_breaks_iff:
  "fst (mergeAndCheck config i allResults newResults w) = Break (allResults @ newResults)
     \<longleftrightarrow> length (items (aggregateResults config (allResults @ newResults)))
           \<le> length (concat (map items allResults))"
  by (simp add: mergeAndCheck_result totalItemCount_flatten)

lemma mergeAndCheck_continues_iff:
  "fst (mergeAndCheck config i allResults newResults w) = Next (allResults @ newResults)
     \<longleftrightarrow> length (concat (map items allResults))
           < length (items (aggregateResults config (allResults @ newResults)))"
  by (auto simp add: mergeAndCheck_result totalItemCount_flatten)

text \<open>
  Once the batches accumulated so far hold maxSearchResults items or more, the
  loop breaks whatever the follow-up searches have found.
\<close>

lemma mergeAndCheck_breaks_at_cap:
  assumes "maxSearchResults config \<le> totalItemCount allResults"
  shows "fst (mergeAndCheck config i allResults newResults w) = Break (allResults @ newResults)"
proof -
  have "length (items (aggregateResults config (allResults @ newResults)))
      \<le> maxSearchResults config"
    by (simp add: items_aggregateResults)
  with assms show ?thesis by (simp add: mergeAndCheck_result)
qed

text \<open>
  C3. The claim describes the intended test: stop when the merge has not
  raised the number of unique items. The code misses it: the count before the
  merge, previousResultsCount, is the plain sum of the batch sizes, duplicates
  included, while the count after the merge is deduplicated. With two
  accumulated batches that both hold URL a (2 items, 1 unique) and a new batch
  holding URL b, the unique items grow from 1 to 2, so by the claim the
  condition must not fire; the code compares 2 with 2 and breaks. In a run
  with maxSearchIterations 3 the loop then ends in its first pass, with the
  console line of the diminishing returns, and no second analysis is made.
\<close>

theorem diminishing_returns_fires_despite_new_unique_item:
  "length (items (aggregateResults exampleConfig
         [batchOf [urlItem ''a''], batchOf [urlItem ''a'' :: unit SearchResult]])) = 1
   \<and> length (items (aggregateResults exampleConfig
         ([batchOf [urlItem ''a''], batchOf [urlItem ''a'' :: unit SearchResult]]
          @ [batchOf [urlItem ''b'']]))) = 2
   \<and> fst (mergeAndCheck exampleConfig 1
          [batchOf [urlItem ''a''], batchOf [urlItem ''a'' :: unit SearchResult]]
          [batchOf [urlItem ''b'']] initialWorld)
     = Break [batchOf [urlItem ''a''], batchOf [urlItem ''a''], batchOf [urlItem ''b'']]
   \<and> iterativeRefinement (exampleConfig\<lparr>maxSearchIterations := 3\<rparr>) sampleRuntime
        (scriptedServices
           [replyWith halfReply, replyWith ''1. recent scientific studies 2023'',
            replyWith halfReply, replyWith ''1. latest research findings'']
           [Resolves (okResponse (batchOf [urlItem ''b''])),
            Resolves (okResponse (batchOf [urlItem ''c'']))])
        exampleContext
        [batchOf [urlItem ''a''], batchOf [urlItem ''a'' :: unit SearchResult]] initialWorld
     = (\<lparr> allSearchResults =
            [batchOf [urlItem ''a''], batchOf [urlItem ''a''], batchOf [urlItem ''b'']],
          currentIteration = 1 \<rparr>,
        \<lparr> llmCalls = 2, searchCalls = 1,
          consoleLog = [LogAnalyzing 1, LogGeneratingFollowup 1, LogExecutingFollowup 1 1,
                        LogDiminishingReturns 1 1 2, LogCompleted 1] \<rparr>)"
  by code_simp

theorem diminishing_returns_fires_despite_new_unique_item_witness:
  "analysesStarted (snd (iterativeRefinement (exampleConfig\<lparr>maxSearchIterations := 3\<rparr>)
        sampleRuntime
        (scriptedServices
           [replyWith halfReply, replyWith ''1. recent scientific studies 2023'',
            replyWith halfReply, replyWith ''1. latest research findings'']
           [Resolves (okResponse (batchOf [urlItem ''b''])),
            Resolves (okResponse (batchOf [urlItem ''c'']))])
        exampleContext
        [batchOf [urlItem ''a''], batchOf [urlItem ''a'' :: unit SearchResult]] initialWorld))
     = 1"
  using diminishing_returns_fires_despite_new_unique_item
  by (simp add: analysesStarted_def)

lemma analyzeSearchResults_log:
  "consoleLog (snd (analyzeSearchResults config js sv context searchResults w)) = consoleLog w"
  by (simp add: analyzeSearchResults_def Let_def split: awaited.splits option.splits)

lemma generateFollowupQueries_log:
  "consoleLog (snd (generateFollowupQueries config js sv context analysis w)) = consoleLog w"
  by (simp add: generateFollowupQueries_def Let_def split: awaited.splits option.splits)

lemma searchMultipleQueries_log:
  "consoleLog (snd (searchMultipleQueries config sv queries context w)) = consoleLog w"
  by (simp add: searchMultipleQueries_def Let_def)

lemma mergeAndCheck_log:
  "\<exists>e. consoleLog (snd (mergeAndCheck config i allResults newResults w)) = consoleLog w @ [e]
       \<and> \<not> isFollowupRound e \<and> \<not> isAnalysis e"
  by (simp add: mergeAndCheck_def Let_def logLine_def)

text \<open>What one pass through the loop body adds to the console.\<close>

lemma iterationBody_log:
  "\<exists>es. consoleLog (snd (iterationBody config js sv context i allResults w))
           = consoleLog w @ LogAnalyzing i # es
       \<and> filter isAnalysis es = []
       \<and> length (filter isFollowupRound es) \<le> 1
       \<and> ((\<exists>results. fst (iterationBody config js sv context i allResults w) = Next results)
            \<longrightarrow> length (filter isFollowupRound es) = 1)"
proof -
  obtain r1 w1 where a: "analyzeSearchResults config js sv context allResults
      (logLine (LogAnalyzing i) w) = (r1, w1)" by (cases "analyzeSearchResults config js sv context allResults
      (logLine (LogAnalyzing i) w)") 
  have l1: "consoleLog w1 = consoleLog w @ [LogAnalyzing i]"
    using analyzeSearchResults_log [of config js sv "context" allResults "logLine (LogAnalyzing i) w"]
    unfolding a by (simp add: logLine_def)
  show ?thesis
  proof (cases "if success r1 then data r1 else None")
    case None
    then show ?thesis
      using a l1 by (simp add: iterationBody_def logLine_def)
  next
    case (Some analysis)
    show ?thesis
    proof (cases "\<not> needsMoreSearch analysis
        \<or> reachesThreshold (completeness analysis) (completenessThreshold config)
        \<or> length (informationGaps analysis) = 0")
      case True
      then show ?thesis
        using a l1 Some by (auto simp: iterationBody_def logLine_def)
    next
      case False
      obtain r2 w2 where f: "generateFollowupQueries config js sv context analysis
          (logLine (LogGeneratingFollowup i) w1) = (r2, w2)"
        by (cases "generateFollowupQueries config js sv context analysis
          (logLine (LogGeneratingFollowup i) w1)")
      have l2: "consoleLog w2 = consoleLog w @ [LogAnalyzing i, LogGeneratingFollowup i]"
        using generateFollowupQueries_log [of config js sv "context" analysis
            "logLine (LogGeneratingFollowup i) w1"]
        unfolding f by (simp add: l1 logLine_def)
      show ?thesis
      proof (cases "if success r2 then data r2 else None")
        case None
        then show ?thesis
          using a Some False f l2 by (simp add: iterationBody_def logLine_def)
      next
        case qs: (Some followupQueries)
        show ?thesis
        proof (cases "length followupQueries = 0")
          case True
          then show ?thesis
            using a Some False f l2 qs by (simp add: iterationBody_def logLine_def)
        next
          case nonempty: False
          obtain r3 w3 where s: "searchMultipleQueries config sv followupQueries context
              (logLine (LogExecutingFollowup i (length followupQueries)) w2) = (r3, w3)"
            by (cases "searchMultipleQueries config sv followupQueries context
              (logLine (LogExecutingFollowup i (length followupQueries)) w2)")
          have l3: "consoleLog w3 = consoleLog w @ [LogAnalyzing i, LogGeneratingFollowup i,
              LogExecutingFollowup i (length followupQueries)]"
            using searchMultipleQueries_log [of config sv followupQueries "context"
                "logLine (LogExecutingFollowup i (length followupQueries)) w2"]
            unfolding s by (simp add: l2 logLine_def)
          show ?thesis
          proof (cases "length (successfulData r3) = 0")
            case True
            then show ?thesis
              using a Some False f qs nonempty s l3
              by (simp add: iterationBody_def logLine_def Let_def)
          next
            case more: False
            obtain e where e: "consoleLog (snd (mergeAndCheck config i allResults
                (successfulData r3) w3)) = consoleLog w3 @ [e]"
              "\<not> isFollowupRound e" "\<not> isAnalysis e"
              using mergeAndCheck_log by blast
            have body: "iterationBody config js sv context i allResults w
                = mergeAndCheck config i allResults (successfulData r3) w3"
              using a Some False f qs nonempty s more
              by (simp add: iterationBody_def Let_def)
            show ?thesis
              unfolding body using e l3 by simp
          qed
        qed
      qed
    qed
  qed
qed

lemma iterationBody_counts:
  "analysesStarted (snd (iterationBody config js sv context i allResults w))
     = analysesStarted w + 1"
  "followupRounds (snd (iterationBody config js sv context i allResults w))
     \<le> followupRounds w + 1"
  using iterationBody_log [of config js sv "context" i allResults w]
  by (auto simp: analysesStarted_def followupRounds_def)

lemma searchLoop_bounds:
  "currentIteration (fst (searchLoop config js sv context st w))
     \<le> max (currentIteration st) (maxSearchIterations config)
   \<and> analysesStarted (snd (searchLoop config js sv context st w))
       \<le> analysesStarted w + (maxSearchIterations config - currentIteration st)
   \<and> followupRounds (snd (searchLoop config js sv context st w))
       \<le> followupRounds w + (maxSearchIterations config - currentIteration st)"
proof (induction config js sv "context" st w rule: searchLoop.induct)
  case (1 config js sv "context" st w)
  show ?case
  proof (cases "currentIteration st < maxSearchIterations config")
    case False
    then show ?thesis by (subst (1 2 3) searchLoop.simps) simp
  next
    case True
    obtain br w' where body: "iterationBody config js sv context (currentIteration st)
        (allSearchResults st) w = (br, w')"
      by (cases "iterationBody config js sv context (currentIteration st)
        (allSearchResults st) w")
    have an: "analysesStarted w' = analysesStarted w + 1"
      and fo: "followupRounds w' \<le> followupRounds w + 1"
      using iterationBody_counts [of config js sv "context" "currentIteration st"
          "allSearchResults st" w] by (simp_all add: body)
    show ?thesis
    proof (cases br)
      case (Break results)
      have "searchLoop config js sv context st w = (st\<lparr>allSearchResults := results\<rparr>, w')"
        using True body Break by (subst searchLoop.simps) simp
      then show ?thesis using True an fo by (simp; linarith)
    next
      case (Next results)
      let ?st' = "\<lparr> allSearchResults = results, currentIteration = currentIteration st + 1 \<rparr>"
      have step: "searchLoop config js sv context st w = searchLoop config js sv context ?st' w'"
        using True body Next by (subst searchLoop.simps) simp
      have ih: "currentIteration (fst (searchLoop config js sv context ?st' w'))
            \<le> max (currentIteration ?st') (maxSearchIterations config)
          \<and> analysesStarted (snd (searchLoop config js sv context ?st' w'))
            \<le> analysesStarted w' + (maxSearchIterations config - currentIteration ?st')
          \<and> followupRounds (snd (searchLoop config js sv context ?st' w'))
            \<le> followupRounds w' + (maxSearchIterations config - currentIteration ?st')"
        using "1.IH" [OF True body [symmetric] Next] .
      show ?thesis
        unfolding step using ih True an fo by auto
    qed
  qed
qed

lemma searchLoop_exit:
  "maxSearchIterations config \<le> currentIteration st \<Longrightarrow>
     searchLoop config js sv context st w = (st, w)"
  by (subst searchLoop.simps) simp

lemma searchLoop_two_iterations:
  assumes "maxSearchIterations config = 2"
  shows "snd (searchLoop config js sv context
            \<lparr> allSearchResults = results, currentIteration = 1 \<rparr> w)
           = snd (iterationBody config js sv context 1 results w)"
proof -
  obtain br w' where body: "iterationBody config js sv context 1 results w = (br, w')"
    by (cases "iterationBody config js sv context 1 results w")
  show ?thesis
  proof (cases br)
    case (Break rs)
    then show ?thesis using assms body by (subst searchLoop.simps) simp
  next
    case (Next rs)
    have "searchLoop config js sv context
            \<lparr> allSearchResults = results, currentIteration = 1 \<rparr> w
        = searchLoop config js sv context
            \<lparr> allSearchResults = rs, currentIteration = 1 + 1 \<rparr> w'"
      using assms body Next by (subst searchLoop.simps) simp
    also have "\<dots> = (\<lparr> allSearchResults = rs, currentIteration = 1 + 1 \<rparr>, w')"
      using assms by (intro searchLoop_exit) simp
    finally show ?thesis using body by simp
  qed
qed

lemma generateFollowupQueries_form:
  "(\<exists>queries. fst (generateFollowupQueries config js sv context analysis w) = okResponse queries)
   \<or> (\<exists>msg c. fst (generateFollowupQueries config js sv context analysis w) = errorResponse msg c)"
  by (auto simp: generateFollowupQueries_def Let_def split: awaited.splits option.splits)

lemma iterationBody_followup_rounds:
  assumes a: "analyzeSearchResults config js sv context allResults (logLine (LogAnalyzing i) w)
                = (okResponse analysis, w1)"
      and needs: "needsMoreSearch analysis"
      and gaps: "informationGaps analysis \<noteq> []"
  shows "followupRounds (snd (iterationBody config js sv context i allResults w))
           = followupRounds w
             + (if \<not> reachesThreshold (completeness analysis) (completenessThreshold config)
                   \<and> (\<exists>queries. queries \<noteq> []
                        \<and> fst (generateFollowupQueries config js sv context analysis
                                 (logLine (LogGeneratingFollowup i) w1)) = okResponse queries)
                then 1 else 0)"
proof -
  have l1: "consoleLog w1 = consoleLog w @ [LogAnalyzing i]"
    using analyzeSearchResults_log [of config js sv "context" allResults "logLine (LogAnalyzing i) w"]
    unfolding a by (simp add: logLine_def)
  show ?thesis
  proof (cases "reachesThreshold (completeness analysis) (completenessThreshold config)")
    case True
    then show ?thesis
      using a l1 by (simp add: iterationBody_def okResponse_def logLine_def followupRounds_def)
  next
    case low: False
    obtain r2 w2 where f: "generateFollowupQueries config js sv context analysis
        (logLine (LogGeneratingFollowup i) w1) = (r2, w2)"
      by (cases "generateFollowupQueries config js sv context analysis
        (logLine (LogGeneratingFollowup i) w1)")
    have l2: "consoleLog w2 = consoleLog w @ [LogAnalyzing i, LogGeneratingFollowup i]"
      using generateFollowupQueries_log [of config js sv "context" analysis
          "logLine (LogGeneratingFollowup i) w1"]
      unfolding f by (simp add: l1 logLine_def)
    have form: "(\<exists>queries. r2 = okResponse queries) \<or> (\<exists>msg c. r2 = errorResponse msg c)"
      using generateFollowupQueries_form [of config js sv "context" analysis
          "logLine (LogGeneratingFollowup i) w1"]
      unfolding f by simp
    show ?thesis
    proof (cases "\<exists>queries. queries \<noteq> [] \<and> r2 = okResponse queries")
      case False
      then have "(if success r2 then data r2 else None) = None
          \<or> (if success r2 then data r2 else None) = Some []"
        using form by (auto simp: okResponse_def errorResponse_def)
      then have "followupRounds (snd (iterationBody config js sv context i allResults w))
          = followupRounds w"
        using a needs gaps low f l2
        by (auto simp: iterationBody_def okResponse_def logLine_def followupRounds_def)
      then show ?thesis using low False f by simp
    next
      case True
      then obtain queries where q: "queries \<noteq> []" "r2 = okResponse queries" by blast
      obtain r3 w3 where s: "searchMultipleQueries config sv queries context
          (logLine (LogExecutingFollowup i (length queries)) w2) = (r3, w3)"
        by (cases "searchMultipleQueries config sv queries context
          (logLine (LogExecutingFollowup i (length queries)) w2)")
      have l3: "consoleLog w3 = consoleLog w @ [LogAnalyzing i, LogGeneratingFollowup i,
          LogExecutingFollowup i (length queries)]"
        using searchMultipleQueries_log [of config sv queries "context"
            "logLine (LogExecutingFollowup i (length queries)) w2"]
        unfolding s by (simp add: l2 logLine_def)
      have "followupRounds (snd (iterationBody config js sv context i allResults w))
          = followupRounds w + 1"
      proof (cases "length (successfulData r3) = 0")
        case True
        then show ?thesis
          using a needs gaps low f q s l3
          by (simp add: iterationBody_def okResponse_def logLine_def followupRounds_def Let_def)
      next
        case False
        obtain e where e: "consoleLog (snd (mergeAndCheck config i allResults
            (successfulData r3) w3)) = consoleLog w3 @ [e]" "\<not> isFollowupRound e"
          using mergeAndCheck_log by blast
        have body: "iterationBody config js sv context i allResults w
            = mergeAndCheck config i allResults (successfulData r3) w3"
          using a needs gaps low f q s False
          by (simp add: iterationBody_def okResponse_def Let_def)
        show ?thesis
          unfolding body using e l3 by (simp add: followupRounds_def)
      qed
      then show ?thesis using low True f by auto
    qed
  qed
qed

text \<open>
  C4, as stated, fails in its scenario: with maxSearchIterations 2 and a first
  analysis that reports completeness 50, needsMoreSearch true and one gap, the
  loop goes on to generate follow-up queries; when that generation fails the
  loop breaks and no follow-up search round is performed at all.
\<close>

theorem no_followup_round_when_generation_fails:
  "fst (analyzeSearchResults exampleConfig sampleRuntime
          (scriptedServices [replyWith halfReply, failedGeneration] [])
          exampleContext [batchOf [urlItem ''a'' :: unit SearchResult]]
          (logLine (LogAnalyzing 1) initialWorld))
     = okResponse
         \<lparr> completeness = Fin 50, informationGaps = [JStr ''Missing recent studies''],
           gapCategories = \<lparr> factual = [], contextual = [], verification = [], depth = [] \<rparr>,
           followupTopics = [], confidenceLevel = Fin 0, needsMoreSearch = True,
           reasoning = ''Analysis completed'' \<rparr>
   \<and> maxSearchIterations exampleConfig = 2
   \<and> enableIterativeSearch exampleConfig
   \<and> followupRounds (snd (iterativeRefinement exampleConfig sampleRuntime
          (scriptedServices [replyWith halfReply, failedGeneration] [])
          exampleContext [batchOf [urlItem ''a'' :: unit SearchResult]] initialWorld)) = 0"
  by code_simp

text \<open>
  C4, amended. The loop starts at most maxSearchIterations - 1 analyses and
  follow-up search rounds, and the iteration counter, which starts at 1, ends
  at most at maxSearchIterations when that is at least 1. With iterative
  search enabled, maxSearchIterations 2 and a first analysis that reports
  completeness 50, needsMoreSearch true and some gap, exactly one analysis is
  made, and one follow-up search round is performed when the completeness
  threshold is above 50 and the follow-up generation returns at least one
  query; otherwise none is. No second round follows, whatever the services
  would answer next.
\<close>

theorem iteration_ceiling:
  "(1 \<le> maxSearchIterations config \<longrightarrow>
      currentIteration (fst (iterativeRefinement config js sv context iterationResults w))
        \<le> maxSearchIterations config)
   \<and> analysesStarted (snd (iterativeRefinement config js sv context iterationResults w))
       \<le> analysesStarted w + (maxSearchIterations config - 1)
   \<and> followupRounds (snd (iterativeRefinement config js sv context iterationResults w))
       \<le> followupRounds w + (maxSearchIterations config - 1)
   \<and> (enableIterativeSearch config \<and> maxSearchIterations config = 2
        \<and> analyzeSearchResults config js sv context iterationResults
             (logLine (LogAnalyzing 1) w) = (okResponse analysis, w1)
        \<and> completeness analysis = Fin 50 \<and> needsMoreSearch analysis
        \<and> informationGaps analysis \<noteq> []
      \<longrightarrow> analysesStarted (snd (iterativeRefinement config js sv context iterationResults w))
            = analysesStarted w + 1
          \<and> followupRounds (snd (iterativeRefinement config js sv context iterationResults w))
            = followupRounds w
              + (if 50 < completenessThreshold config
                    \<and> (\<exists>queries. queries \<noteq> []
                         \<and> fst (generateFollowupQueries config js sv context analysis
                                  (logLine (LogGeneratingFollowup 1) w1)) = okResponse queries)
                 then 1 else 0))"
proof -
  let ?st = "\<lparr> allSearchResults = iterationResults, currentIteration = 1 \<rparr>"
  let ?R = "iterativeRefinement config js sv context iterationResults w"
  have counts: "analysesStarted (logLine (LogCompleted n) w') = analysesStarted w'"
      "followupRounds (logLine (LogCompleted n) w') = followupRounds w'" for n w'
    by (simp_all add: analysesStarted_def followupRounds_def logLine_def)
  have bounds: "(1 \<le> maxSearchIterations config \<longrightarrow>
        currentIteration (fst ?R) \<le> maxSearchIterations config)
      \<and> analysesStarted (snd ?R) \<le> analysesStarted w + (maxSearchIterations config - 1)
      \<and> followupRounds (snd ?R) \<le> followupRounds w + (maxSearchIterations config - 1)"
  proof (cases "enableIterativeSearch config \<and> maxSearchIterations config > 1")
    case False
    then show ?thesis by (auto simp: iterativeRefinement_def)
  next
    case True
    obtain st' w' where loop: "searchLoop config js sv context ?st w = (st', w')"
      by (cases "searchLoop config js sv context ?st w")
    have "currentIteration st' \<le> max 1 (maxSearchIterations config)
        \<and> analysesStarted w' \<le> analysesStarted w + (maxSearchIterations config - 1)
        \<and> followupRounds w' \<le> followupRounds w + (maxSearchIterations config - 1)"
      using searchLoop_bounds [of config js sv "context" ?st w] unfolding loop by simp
    then show ?thesis
      using True by (simp add: iterativeRefinement_def loop [simplified] counts)
  qed
  have scenario: "analysesStarted (snd ?R) = analysesStarted w + 1
      \<and> followupRounds (snd ?R)
        = followupRounds w
          + (if 50 < completenessThreshold config
                \<and> (\<exists>queries. queries \<noteq> []
                     \<and> fst (generateFollowupQueries config js sv context analysis
                              (logLine (LogGeneratingFollowup 1) w1)) = okResponse queries)
             then 1 else 0)"
    if en: "enableIterativeSearch config" and two: "maxSearchIterations config = 2"
      and a: "analyzeSearchResults config js sv context iterationResults
             (logLine (LogAnalyzing 1) w) = (okResponse analysis, w1)"
      and c: "completeness analysis = Fin 50" and n: "needsMoreSearch analysis"
      and g: "informationGaps analysis \<noteq> []"
  proof -
    obtain st' w' where loop: "searchLoop config js sv context ?st w = (st', w')"
      by (cases "searchLoop config js sv context ?st w")
    have w': "w' = snd (iterationBody config js sv context 1 iterationResults w)"
      using searchLoop_two_iterations [OF two, of js sv "context" iterationResults w]
      unfolding loop by simp
    have R: "snd ?R = logLine (LogCompleted (currentIteration st')) w'"
      using en two by (simp add: iterativeRefinement_def loop [simplified])
    have th: "reachesThreshold (completeness analysis) (completenessThreshold config)
        \<longleftrightarrow> \<not> 50 < completenessThreshold config"
      by (auto simp: c reachesThreshold_def)
    have "analysesStarted w' = analysesStarted w + 1"
      unfolding w' by (rule iterationBody_counts)
    moreover have "followupRounds w' = followupRounds w
          + (if 50 < completenessThreshold config
                \<and> (\<exists>queries. queries \<noteq> []
                     \<and> fst (generateFollowupQueries config js sv context analysis
                              (logLine (LogGeneratingFollowup 1) w1)) = okResponse queries)
             then 1 else 0)"
      unfolding w' iterationBody_followup_rounds [OF a n g] th by simp
    ultimately show ?thesis
      unfolding R counts by simp
  qed
  from bounds scenario show ?thesis by blast
qed

theorem iteration_ceiling_witness:
  "enableIterativeSearch exampleConfig \<and> maxSearchIterations exampleConfig = 2
   \<and> completenessThreshold exampleConfig = 80
   \<and> fst (generateFollowupQueries exampleConfig sampleRuntime
        (scriptedServices [replyWith halfReply, replyWith ''1. recent scientific studies 2023'']
           [Resolves (okResponse (batchOf [urlItem ''b'', urlItem ''c'' :: unit SearchResult]))])
        exampleContext
        \<lparr> completeness = Fin 50, informationGaps = [JStr ''Missing recent studies''],
          gapCategories = \<lparr> factual = [], contextual = [], verification = [], depth = [] \<rparr>,
          followupTopics = [], confidenceLevel = Fin 0, needsMoreSearch = True,
          reasoning = ''Analysis completed'' \<rparr>
        (logLine (LogGeneratingFollowup 1)
           \<lparr> llmCalls = 1, searchCalls = 0, consoleLog = [LogAnalyzing 1] \<rparr>))
       = okResponse [''recent scientific studies 2023'']
   \<and> followupRounds (snd (iterativeRefinement exampleConfig sampleRuntime
        (scriptedServices [replyWith halfReply, replyWith ''1. recent scientific studies 2023'']
           [Resolves (okResponse (batchOf [urlItem ''b'', urlItem ''c'' :: unit SearchResult]))])
        exampleContext [batchOf [urlItem ''a'' :: unit SearchResult]] initialWorld)) = 1"
proof -
  let ?sv = "scriptedServices [replyWith halfReply, replyWith ''1. recent scientific studies 2023'']
           [Resolves (okResponse (batchOf [urlItem ''b'', urlItem ''c'' :: unit SearchResult]))]"
  let ?a = "\<lparr> completeness = Fin 50, informationGaps = [JStr ''Missing recent studies''],
          gapCategories = \<lparr> factual = [], contextual = [], verification = [], depth = [] \<rparr>,
          followupTopics = [], confidenceLevel = Fin 0, needsMoreSearch = True,
          reasoning = ''Analysis completed'' \<rparr>"
  let ?w1 = "\<lparr> llmCalls = 1, searchCalls = 0, consoleLog = [LogAnalyzing 1] \<rparr>"
  have en: "enableIterativeSearch exampleConfig" and two: "maxSearchIterations exampleConfig = 2"
    and th: "completenessThreshold exampleConfig = 80"
    by (simp_all add: exampleConfig_def)
  have a: "analyzeSearchResults exampleConfig sampleRuntime ?sv exampleContext
      [batchOf [urlItem ''a'']] (logLine (LogAnalyzing 1) initialWorld) = (okResponse ?a, ?w1)"
    by code_simp
  have f: "fst (generateFollowupQueries exampleConfig sampleRuntime ?sv exampleContext ?a
      (logLine (LogGeneratingFollowup 1) ?w1)) = okResponse [''recent scientific studies 2023'']"
    by code_simp
  have ex: "\<exists>queries. queries \<noteq> [] \<and> fst (generateFollowupQueries exampleConfig sampleRuntime
      ?sv exampleContext ?a (logLine (LogGeneratingFollowup 1) ?w1)) = okResponse queries"
    unfolding f by blast
  have w0: "followupRounds initialWorld = 0"
    by (simp add: followupRounds_def initialWorld_def)
  have r: "followupRounds (snd (iterativeRefinement exampleConfig sampleRuntime ?sv
      exampleContext [batchOf [urlItem ''a'']] initialWorld)) = 1"
    using iteration_ceiling [of exampleConfig sampleRuntime ?sv exampleContext
        "[batchOf [urlItem ''a'']]" initialWorld ?a ?w1] en two a ex
    by (simp add: th w0)
  from en two th f r show ?thesis by blast
qed

end
